theory Spec2Isabelle
  imports Main
begin

section \<open>Shared values: Python data and exceptions\<close>

text \<open>
  The values \<open>json.loads\<close> produces. Python's \<open>None\<close> is \<open>JNull\<close>; a \<open>dict\<close>
  is an association list whose keys are unique. Numbers are kept as integers: only
  their truthiness is ever inspected.
\<close>

datatype json =
    JNull
  | JBool bool
  | JNum int
  | JStr string
  | JArr "json list"
  | JObj "(string \<times> json) list"

text \<open>The exception classes raised or passed through by the modelled code.\<close>

datatype error =
    ValueError string
  | TypeError string
  | KeyError string
  | OSError string
  | RefreshError string
  | OAuthError string
  | TransportError string
  | TimeoutError

text \<open>Python truthiness (\<open>if x\<close>, \<open>not x\<close>, \<open>x or y\<close>) on these values.\<close>

fun truthy :: "json \<Rightarrow> bool" where
  "truthy JNull = False"
| "truthy (JBool b) = b"
| "truthy (JNum n) = (n \<noteq> 0)"
| "truthy (JStr s) = (s \<noteq> [])"
| "truthy (JArr xs) = (xs \<noteq> [])"
| "truthy (JObj kvs) = (kvs \<noteq> [])"

text \<open>Truthiness of an \<open>Optional[str]\<close>: \<open>None\<close> and the empty string are false.\<close>

fun truthy_str :: "string option \<Rightarrow> bool" where
  "truthy_str None = False"
| "truthy_str (Some s) = (s \<noteq> [])"

text \<open>\<open>"'{}'".format(s)\<close>: the text between single quotes.\<close>

definition quoted :: "string \<Rightarrow> string" where
  "quoted s = CHR 0x27 # s @ [CHR 0x27]"

text \<open>\<open>"{}".format(x)\<close> of an \<open>Optional[str]\<close>.\<close>

fun format_opt :: "string option \<Rightarrow> string" where
  "format_opt None = ''None''"
| "format_opt (Some s) = s"

section \<open>Identity pool credentials (\<open>google/auth/identity_pool.py\<close>)\<close>

subsection \<open>The credential source and the constructor\<close>

text \<open>
  The \<open>credential_source\<close> mapping, typed as the configuration document gives it:
  \<open>{file | url, headers?, format?: {type?, subject_token_field_name?}}\<close>. A key that
  is absent reads as \<open>None\<close> through \<open>dict.get\<close>. The constructor's argument is
  \<open>None\<close> here when the caller passes something that is not a \<open>dict\<close>.
\<close>

record source_format =
  format_type :: "string option"
  subject_token_field_name :: "string option"

record credential_source =
  source_file :: "string option"
  source_url :: "string option"
  source_headers :: "(string \<times> string) list option"
  source_format :: "source_format option"

text \<open>The attributes \<open>Credentials.__init__\<close> sets on the instance.\<close>

record Credentials =
  credential_source_file :: "string option"
  credential_source_url :: "string option"
  credential_source_headers :: "(string \<times> string) list option"
  success_codes :: "int list"
  credential_source_format_type :: string
  credential_source_field_name :: "string option"

text \<open>
  Lines 129 to 132 of \<open>__init__\<close>: the last two checks, on the truthiness of the file
  and url attributes.
\<close>

definition check_source ::
  "string option \<Rightarrow> string option \<Rightarrow> Credentials \<Rightarrow> error + Credentials" where
  "check_source file url self =
     (if truthy_str file \<and> truthy_str url then Inl (ValueError ''Ambiguous credential_source'')
      else if \<not> truthy_str file \<and> \<not> truthy_str url then
        Inl (ValueError ''Missing credential_source'')
      else Inr self)"

text \<open>
  \<open>Credentials.__init__\<close>. The base class constructor runs first; its code is not part
  of this module, so its outcome is the parameter \<open>super_init\<close> (\<open>Some e\<close> when it
  raises \<open>e\<close>). \<open>credential_source.get("format") or {}\<close> reads an absent format as the
  empty dict, and \<open>credential_source_format.get("type") or "text"\<close> reads an absent or
  empty type as \<open>"text"\<close>. When the source is not a dict only the file and url
  attributes are set, both to \<open>None\<close>, and the last check raises.
\<close>

definition Credentials_init ::
  "error option \<Rightarrow> credential_source option \<Rightarrow> int list \<Rightarrow> error + Credentials" where
  "Credentials_init super_init credential_source success =
     (case super_init of
        Some e \<Rightarrow> Inl e
      | None \<Rightarrow>
         (case credential_source of
            None \<Rightarrow>
              check_source None None
                \<lparr>credential_source_file = None, credential_source_url = None,
                 credential_source_headers = None, success_codes = success,
                 credential_source_format_type = ''text'', credential_source_field_name = None\<rparr>
          | Some src \<Rightarrow>
              (let credential_source_format =
                     (case source_format src of
                        None \<Rightarrow> \<lparr>format_type = None, subject_token_field_name = None\<rparr>
                      | Some f \<Rightarrow> f);
                   ftype =
                     (if truthy_str (format_type credential_source_format)
                      then format_opt (format_type credential_source_format) else ''text'');
                   self = \<lparr>credential_source_file = source_file src,
                           credential_source_url = source_url src,
                           credential_source_headers = source_headers src,
                           success_codes = success,
                           credential_source_format_type = ftype,
                           credential_source_field_name = None\<rparr>
               in if ftype \<notin> set [''text'', ''json''] then
                    Inl (ValueError (''Invalid credential_source format '' @ quoted ftype))
                  else if ftype = ''json'' then
                    (if subject_token_field_name credential_source_format = None then
                       Inl (ValueError
                         ''Missing subject_token_field_name for JSON credential_source format'')
                     else
                       check_source (source_file src) (source_url src)
                         (self\<lparr>credential_source_field_name :=
                                 subject_token_field_name credential_source_format\<rparr>))
                  else check_source (source_file src) (source_url src) self)))"

subsection \<open>Retrieving the subject token\<close>

text \<open>
  What the module reads from outside: \<open>os.path.exists\<close>, \<open>io.open(...).read()\<close>,
  \<open>urllib.request.urlopen\<close> (the response's status and body) and \<open>json.loads\<close>
  (\<open>None\<close> when it raises \<open>ValueError\<close>). Reading and fetching may raise on their own.
\<close>

record environment =
  path_exists :: "string \<Rightarrow> bool"
  read_file :: "string \<Rightarrow> error + string"
  urlopen :: "string \<Rightarrow> error + (int \<times> string)"
  json_loads :: "string \<Rightarrow> json option"

definition get_file_data :: "environment \<Rightarrow> string \<Rightarrow> error + (string \<times> string)" where
  "get_file_data env filename =
     (if \<not> path_exists env filename then
        Inl (RefreshError (''File '' @ quoted filename @ '' was not found.''))
      else
        (case read_file env filename of
           Inl e \<Rightarrow> Inl e
         | Inr content \<Rightarrow> Inr (content, filename)))"

definition get_url_data ::
  "environment \<Rightarrow> Credentials \<Rightarrow> string \<Rightarrow> error + (string \<times> string)" where
  "get_url_data env self u =
     (case urlopen env u of
        Inl e \<Rightarrow> Inl e
      | Inr (st, content) \<Rightarrow>
          if st \<notin> set (success_codes self) then
            Inl (RefreshError (''Url '' @ quoted u @ '' was not found.''))
          else Inr (content, u))"

text \<open>\<open>_get_token_data\<close> falls off its end, returning \<open>None\<close>, when neither attribute is truthy.\<close>

definition get_token_data ::
  "environment \<Rightarrow> Credentials \<Rightarrow> error + (string \<times> string) option" where
  "get_token_data env self =
     (if truthy_str (credential_source_file self) then
        map_sum id Some (get_file_data env (format_opt (credential_source_file self)))
      else if truthy_str (credential_source_url self) then
        map_sum id Some (get_url_data env self (format_opt (credential_source_url self)))
      else Inr None)"

text \<open>
  \<open>response_data[subject_token_field_name]\<close>: a dict raises \<open>KeyError\<close> on a missing
  key; a list, a string, a number, a boolean or \<open>None\<close> raises \<open>TypeError\<close>.
\<close>

fun subscript :: "json \<Rightarrow> string option \<Rightarrow> error + json" where
  "subscript (JObj kvs) (Some k) =
     (case map_of kvs k of None \<Rightarrow> Inl (KeyError k) | Some v \<Rightarrow> Inr v)"
| "subscript (JObj kvs) None = Inl (KeyError ''None'')"
| "subscript (JArr xs) k = Inl (TypeError ''list indices must be integers or slices, not str'')"
| "subscript (JStr s) k = Inl (TypeError ''string indices must be integers'')"
| "subscript v k = Inl (TypeError ''object is not subscriptable'')"

definition parse_failure :: "string \<Rightarrow> string option \<Rightarrow> error" where
  "parse_failure filename field =
     RefreshError (''Unable to parse subject_token from JSON file '' @ quoted filename
                   @ '' using key '' @ quoted (format_opt field))"

text \<open>
  \<open>_parse_token_data\<close>. The \<open>except (KeyError, ValueError)\<close> clause turns those two
  into the \<open>RefreshError\<close> above; any other exception leaves the \<open>try\<close> as it is.
\<close>

definition parse_token_data ::
  "environment \<Rightarrow> (string \<times> string) option \<Rightarrow> string \<Rightarrow> string option \<Rightarrow> error + json" where
  "parse_token_data env token_content ftype field =
     (case token_content of
        None \<Rightarrow> Inl (TypeError ''cannot unpack non-iterable NoneType object'')
      | Some (content, filename) \<Rightarrow>
          (case (if ftype = ''text'' then Inr (JStr content)
                 else
                   (case json_loads env content of
                      None \<Rightarrow> Inl (parse_failure filename field)
                    | Some response_data \<Rightarrow>
                        (case subscript response_data field of
                           Inl (KeyError k) \<Rightarrow> Inl (parse_failure filename field)
                         | Inl (ValueError m) \<Rightarrow> Inl (parse_failure filename field)
                         | Inl e \<Rightarrow> Inl e
                         | Inr v \<Rightarrow> Inr v))) of
             Inl e \<Rightarrow> Inl e
           | Inr token \<Rightarrow>
               if \<not> truthy token then
                 Inl (RefreshError ''Missing subject_token in the credential_source file'')
               else Inr token))"

definition retrieve_subject_token :: "environment \<Rightarrow> Credentials \<Rightarrow> error + json" where
  "retrieve_subject_token env self =
     (case get_token_data env self of
        Inl e \<Rightarrow> Inl e
      | Inr token_content \<Rightarrow>
          parse_token_data env token_content
            (credential_source_format_type self) (credential_source_field_name self))"

section \<open>The aiohttp transport (\<open>google/auth/transport/aiohttp_requests.py\<close>)\<close>

subsection \<open>The \<open>Request\<close> adapter\<close>

type_synonym headers = "(string \<times> string) list"

record Response =
  status :: int
  response_headers :: headers
  response_content :: string

text \<open>The arguments a call passes through unchanged: method, url, body and timeout.\<close>

record call_args =
  http_method :: string
  http_url :: string
  http_data :: "string option"
  http_timeout :: "int option"

text \<open>
  An \<open>aiohttp.ClientSession\<close> object is named by a number. \<open>aiohttp.ClientSession()\<close>
  hands out the next unused number, so the count of sessions created so far is the
  name of the next one. What \<open>session.request\<close> does is outside the module: it
  responds, raises \<open>aiohttp.ClientError\<close> or raises \<open>asyncio.TimeoutError\<close>.
\<close>

datatype aio_result =
    Responded Response
  | RaisedClientError string
  | RaisedTimeoutError string

record Request =
  session :: "nat option"

text \<open>\<open>Request.__init__(self, session=None)\<close>: line 95 stores \<open>None\<close> whatever is passed.\<close>

definition Request_init :: "nat option \<Rightarrow> Request" where
  "Request_init session_arg = \<lparr>session = None\<rparr>"

text \<open>
  \<open>Request.__call__\<close>: creates a session when none is stored, sends through the stored
  session, and wraps the two caught exceptions in \<open>TransportError\<close>. It returns the
  outcome, the adapter and the new count of sessions created.
\<close>

definition Request_call ::
  "(nat \<Rightarrow> call_args \<Rightarrow> headers option \<Rightarrow> aio_result) \<Rightarrow> Request \<Rightarrow> call_args \<Rightarrow>
   headers option \<Rightarrow> nat \<Rightarrow> (error + Response) \<times> Request \<times> nat" where
  "Request_call client_request self c hdrs created =
     (let s = (case session self of None \<Rightarrow> created | Some s0 \<Rightarrow> s0);
          created1 = (case session self of None \<Rightarrow> Suc created | Some s0 \<Rightarrow> created);
          self1 = self\<lparr>session := Some s\<rparr>
      in (case client_request s c hdrs of
            Responded response \<Rightarrow> (Inr response, self1, created1)
          | RaisedClientError m \<Rightarrow> (Inl (TransportError m), self1, created1)
          | RaisedTimeoutError m \<Rightarrow> (Inl (TransportError m), self1, created1)))"

subsection \<open>\<open>AuthorizedSession.request\<close>\<close>

text \<open>
  Modelled from the spec: \<open>requests.TimeoutGuard\<close> lives in
  \<open>google/auth/transport/requests.py\<close>, which is not among the sources. The spec's
  scoped timing guard, on normal completion of its body, decrements the budget by the
  elapsed wall time and raises the timeout error when nothing is left; with no budget
  it enforces nothing. The result is the guard's \<open>remaining_timeout\<close>. When the body
  raises, the guard lets the exception through, so the callers below consult the guard
  only after a body that returned. Times are integers in one fixed unit.
\<close>

definition TimeoutGuard :: "int option \<Rightarrow> int \<Rightarrow> error + int option" where
  "TimeoutGuard timeout elapsed =
     (case timeout of
        None \<Rightarrow> Inr None
      | Some t \<Rightarrow> if t - elapsed \<le> 0 then Inl TimeoutError else Inr (Some (t - elapsed)))"

text \<open>
  The collaborators of one session, over a state \<open>'s\<close> that holds the credentials and
  the network: \<open>credentials.before_request\<close> (given the contents of the dict it may
  rewrite, it returns the new contents), the wrapped \<open>aiohttp.ClientSession.request\<close>,
  and \<open>credentials.refresh\<close>. Each also reports the wall time it took.
\<close>

record 's collaborators =
  before_request :: "'s \<Rightarrow> call_args \<Rightarrow> headers \<Rightarrow> int \<times> (error + headers) \<times> 's"
  session_request :: "'s \<Rightarrow> call_args \<Rightarrow> headers \<Rightarrow> int \<times> (error + Response) \<times> 's"
  credentials_refresh :: "'s \<Rightarrow> call_args \<Rightarrow> int \<times> error option \<times> 's"

record AuthorizedSession =
  refresh_status_codes :: "int list"
  max_refresh_attempts :: int

text \<open>What a call leaves behind, in order.\<close>

datatype event =
    BeforeRequest headers
  | Sent headers
  | ForcedRefresh

text \<open>
  The state a call runs in: the collaborators' state, the \<open>dict\<close> objects by address
  (a caller's \<open>headers\<close> argument is an address, or \<open>None\<close>), the next free address,
  and the trace.
\<close>

record 's world =
  outside :: 's
  heap :: "nat \<Rightarrow> headers"
  next_addr :: nat
  trace :: "event list"

text \<open>
  Lines 252 to 282: copy the headers into a new dict, run \<open>before_request\<close> on the copy
  under the first guard, send with the copy under the second guard, and read the
  second guard's \<open>remaining_timeout\<close>. Both guards are built from \<open>remaining_time\<close>,
  which still holds \<open>max_allowed_time\<close>: nothing reads the first guard.
\<close>

definition send_with_credentials ::
  "'s collaborators \<Rightarrow> call_args \<Rightarrow> nat option \<Rightarrow> int option \<Rightarrow> 's world \<Rightarrow>
   (error + Response \<times> int option) \<times> 's world" where
  "send_with_credentials ops c hdrs max_allowed_time w =
     (let request_headers = next_addr w;
          w0 = w\<lparr>heap := (heap w)(request_headers :=
                        (case hdrs of None \<Rightarrow> [] | Some h \<Rightarrow> heap w h)),
                 next_addr := Suc (next_addr w)\<rparr>;
          remaining_time = max_allowed_time;
          run1 = before_request ops (outside w0) c (heap w0 request_headers);
          w1 = w0\<lparr>outside := snd (snd run1),
                  trace := trace w0 @ [BeforeRequest (heap w0 request_headers)]\<rparr>
      in (case fst (snd run1) of
            Inl e \<Rightarrow> (Inl e, w1)
          | Inr applied \<Rightarrow>
              (let w2 = w1\<lparr>heap := (heap w1)(request_headers := applied)\<rparr> in
               (case TimeoutGuard remaining_time (fst run1) of
                  Inl e \<Rightarrow> (Inl e, w2)
                | Inr unread \<Rightarrow>
                    (let run2 = session_request ops (outside w2) c (heap w2 request_headers);
                         w3 = w2\<lparr>outside := snd (snd run2),
                                 trace := trace w2 @ [Sent (heap w2 request_headers)]\<rparr>
                     in (case fst (snd run2) of
                           Inl e \<Rightarrow> (Inl e, w3)
                         | Inr response \<Rightarrow>
                             (case TimeoutGuard remaining_time (fst run2) of
                                Inl e \<Rightarrow> (Inl e, w3)
                              | Inr remaining \<Rightarrow> (Inr (response, remaining), w3))))))))"

text \<open>Lines 304 to 312: \<open>credentials.refresh\<close> under the third guard and the refresh lock.\<close>

definition forced_refresh ::
  "'s collaborators \<Rightarrow> call_args \<Rightarrow> int option \<Rightarrow> 's world \<Rightarrow> (error + int option) \<times> 's world" where
  "forced_refresh ops c remaining_time w =
     (let run = credentials_refresh ops (outside w) c;
          w1 = w\<lparr>outside := snd (snd run), trace := trace w @ [ForcedRefresh]\<rparr>
      in (case fst (snd run) of
            Some e \<Rightarrow> (Inl e, w1)
          | None \<Rightarrow>
              (case TimeoutGuard remaining_time (fst run) of
                 Inl e \<Rightarrow> (Inl e, w1)
               | Inr remaining \<Rightarrow> (Inr remaining, w1))))"

text \<open>
  \<open>AuthorizedSession.request\<close>, with \<open>_credential_refresh_attempt\<close> as the argument
  \<open>attempt\<close>. The recursive call passes \<open>headers\<close>, the caller's own argument.
\<close>

function request ::
  "'s collaborators \<Rightarrow> AuthorizedSession \<Rightarrow> call_args \<Rightarrow> nat option \<Rightarrow> int option \<Rightarrow> int \<Rightarrow>
   's world \<Rightarrow> (error + Response) \<times> 's world" where
  "request ops self c hdrs max_allowed_time attempt w =
     (case send_with_credentials ops c hdrs max_allowed_time w of
        (Inl e, w1) \<Rightarrow> (Inl e, w1)
      | (Inr (response, remaining_time), w1) \<Rightarrow>
          if status response \<in> set (refresh_status_codes self)
             \<and> attempt < max_refresh_attempts self
          then (case forced_refresh ops c remaining_time w1 of
                  (Inl e, w2) \<Rightarrow> (Inl e, w2)
                | (Inr remaining_time', w2) \<Rightarrow>
                    request ops self c hdrs remaining_time' (attempt + 1) w2)
          else (Inr response, w1))"
  by pat_completeness auto
termination
  by (relation "measure (\<lambda>(ops, self, c, hdrs, t, attempt, w).
                  nat (max_refresh_attempts self - attempt))") auto

declare request.simps [simp del]

text \<open>The number of underlying calls and of forced refreshes in a trace.\<close>

fun is_sent :: "event \<Rightarrow> bool" where
  "is_sent (Sent hs) = True"
| "is_sent ev = False"

fun is_forced_refresh :: "event \<Rightarrow> bool" where
  "is_forced_refresh ForcedRefresh = True"
| "is_forced_refresh ev = False"

definition underlying_calls :: "event list \<Rightarrow> nat" where
  "underlying_calls tr = length (filter is_sent tr)"

definition forced_refreshes :: "event list \<Rightarrow> nat" where
  "forced_refreshes tr = length (filter is_forced_refresh tr)"

text \<open>The header contents each \<open>before_request\<close> call of a trace was handed.\<close>

fun handed_headers :: "event list \<Rightarrow> headers list" where
  "handed_headers [] = []"
| "handed_headers (BeforeRequest hs # tr) = hs # handed_headers tr"
| "handed_headers (ev # tr) = handed_headers tr"

subsection \<open>Counting what a call asks of its collaborators\<close>

text \<open>
  The collaborators' own state extended with two counters, as a mock counts its calls:
  \<open>counting ops\<close> behaves as \<open>ops\<close> does on the inner state, and counts each
  underlying request sent and each \<open>credentials.refresh\<close> run. Only a collaborator
  that is really called moves its counter.
\<close>

record 's counted =
  inner :: 's
  calls_made :: nat
  refreshes_made :: nat

definition counting :: "'s collaborators \<Rightarrow> 's counted collaborators" where
  "counting ops =
     \<lparr>before_request = (\<lambda>s c hs.
         (let run = before_request ops (inner s) c hs
          in (fst run, fst (snd run), s\<lparr>inner := snd (snd run)\<rparr>))),
      session_request = (\<lambda>s c hs.
         (let run = session_request ops (inner s) c hs
          in (fst run, fst (snd run),
              s\<lparr>inner := snd (snd run), calls_made := Suc (calls_made s)\<rparr>))),
      credentials_refresh = (\<lambda>s c.
         (let run = credentials_refresh ops (inner s) c
          in (fst run, fst (snd run),
              s\<lparr>inner := snd (snd run), refreshes_made := Suc (refreshes_made s)\<rparr>)))\<rparr>"

subsection \<open>A stub session, after \<open>tests_async/test_aiohttp_req.py\<close>\<close>

text \<open>
  \<open>CredentialsStub\<close>: \<open>before_request\<close> sets the \<open>authorization\<close> header to the token
  and \<open>refresh\<close> appends \<open>"1"\<close> to it. The wrapped client answers with the statuses
  queued for it, one per call. The three numbers are the wall time each collaborator takes.
\<close>

fun set_item :: "string \<Rightarrow> string \<Rightarrow> headers \<Rightarrow> headers" where
  "set_item k v [] = [(k, v)]"
| "set_item k v ((k', v') # kvs) =
     (if k = k' then (k, v) # kvs else (k', v') # set_item k v kvs)"

record stub =
  stub_token :: string
  stub_replies :: "int list"

definition stub_ops :: "int \<Rightarrow> int \<Rightarrow> int \<Rightarrow> stub collaborators" where
  "stub_ops t_before t_send t_refresh =
     \<lparr>before_request = (\<lambda>s c hs. (t_before, Inr (set_item ''authorization'' (stub_token s) hs), s)),
      session_request = (\<lambda>s c hs.
         (case stub_replies s of
            [] \<Rightarrow> (t_send, Inl (TransportError ''no reply''), s)
          | st # rest \<Rightarrow>
              (t_send, Inr \<lparr>status = st, response_headers = [], response_content = []\<rparr>,
               s\<lparr>stub_replies := rest\<rparr>))),
      credentials_refresh = (\<lambda>s c. (t_refresh, None, s\<lparr>stub_token := stub_token s @ ''1''\<rparr>))\<rparr>"

text \<open>The caller holds one headers dict, at address 0.\<close>

definition stub_world :: "int list \<Rightarrow> stub world" where
  "stub_world sts =
     \<lparr>outside = \<lparr>stub_token = ''token'', stub_replies = sts\<rparr>,
      heap = (\<lambda>a. []) (0 := [(''other'', ''header-value'')]),
      next_addr = 1, trace = []\<rparr>"

text \<open>The same world for the counting collaborators, both counters at zero.\<close>

definition counted_stub_world :: "int list \<Rightarrow> stub counted world" where
  "counted_stub_world sts =
     \<lparr>outside = \<lparr>inner = \<lparr>stub_token = ''token'', stub_replies = sts\<rparr>,
                 calls_made = 0, refreshes_made = 0\<rparr>,
      heap = (\<lambda>a. []) (0 := [(''other'', ''header-value'')]),
      next_addr = 1, trace = []\<rparr>"

definition get_call :: call_args where
  "get_call = \<lparr>http_method = ''GET'', http_url = ''http://example.com/'', http_data = None,
               http_timeout = Some 180\<rparr>"

subsection \<open>Example credential sources\<close>

text \<open>A file source in JSON format and one in text format.\<close>

definition json_source :: credential_source where
  "json_source =
     \<lparr>source_file = Some ''/var/run/secrets/token.json'', source_url = None,
      source_headers = None,
      source_format = Some \<lparr>format_type = Some ''json'',
                            subject_token_field_name = Some ''access_token''\<rparr>\<rparr>"

definition text_source :: credential_source where
  "text_source =
     \<lparr>source_file = Some ''/var/run/secrets/token'', source_url = None,
      source_headers = None, source_format = None\<rparr>"

text \<open>The JSON text \<open>{"access_token": "TOKEN"}\<close>.\<close>

definition token_document :: string where
  "token_document =
     ''{'' @ [CHR 0x22] @ ''access_token'' @ [CHR 0x22] @ '': ''
     @ [CHR 0x22] @ ''TOKEN'' @ [CHR 0x22] @ ''}''"

text \<open>
  The file system: the JSON file holds \<open>json_text\<close>, the text file a plain token.
  \<open>json.loads\<close> is given on the two JSON texts used below.
\<close>

definition example_files :: "string \<Rightarrow> environment" where
  "example_files json_text =
     \<lparr>path_exists = (\<lambda>p. p = ''/var/run/secrets/token.json'' \<or> p = ''/var/run/secrets/token''),
      read_file = (\<lambda>p. if p = ''/var/run/secrets/token'' then Inr ''HEADER.PAYLOAD.SIG''
                         else Inr json_text),
      urlopen = (\<lambda>u. Inl (OSError ''unreachable'')),
      json_loads = (\<lambda>s. if s = token_document
                          then Some (JObj [(''access_token'', JStr ''TOKEN'')])
                          else if s = ''[]'' then Some (JArr []) else None)\<rparr>"

section \<open>External account credentials (\<open>google/auth/external_account.py\<close>)\<close>

text \<open>
  The module \<open>google/auth/external_account.py\<close> is not among the sources; only its
  tests are (\<open>tests/test_external_account.py\<close>). Every definition of this section is
  therefore written from the spec (sections 3, 4.2, 4.3, 4.5 and 7), with the constants
  the spec leaves open taken from the tests.
\<close>

subsection \<open>Time\<close>

text \<open>
  Modelled from the spec: an absolute UTC timestamp, missing with the module above. It
  is the number of whole seconds since \<open>0001-01-01T00:00:00\<close> (\<open>datetime.min\<close>, the
  reference time of the tests); a duration is a number of seconds.
\<close>

type_synonym datetime = int

definition digit :: "char \<Rightarrow> nat option" where
  "digit ch = (let n = (of_char ch :: nat) in if 48 \<le> n \<and> n \<le> 57 then Some (n - 48) else None)"

fun digits :: "nat \<Rightarrow> string \<Rightarrow> nat option" where
  "digits acc [] = Some acc"
| "digits acc (ch # cs) =
     (case digit ch of None \<Rightarrow> None | Some d \<Rightarrow> digits (10 * acc + d) cs)"

definition is_leap :: "nat \<Rightarrow> bool" where
  "is_leap y = (y mod 4 = 0 \<and> (y mod 100 \<noteq> 0 \<or> y mod 400 = 0))"

definition days_in_month :: "nat \<Rightarrow> nat \<Rightarrow> nat" where
  "days_in_month y m =
     (if m = 2 then (if is_leap y then 29 else 28)
      else if m = 4 \<or> m = 6 \<or> m = 9 \<or> m = 11 then 30 else 31)"

definition days_before_month :: "nat \<Rightarrow> nat \<Rightarrow> nat" where
  "days_before_month y m = sum_list (map (days_in_month y) [1..<m])"

definition days_before_year :: "nat \<Rightarrow> nat" where
  "days_before_year y = (y - 1) * 365 + (y - 1) div 4 - (y - 1) div 100 + (y - 1) div 400"

text \<open>
  Modelled from the spec: the parse of an RFC3339 absolute UTC timestamp, missing with
  the module above, in the form the impersonation service sends and the tests build:
  \<open>YYYY-MM-DDTHH:MM:SSZ\<close>. Anything else, and any field out of range, does not parse.
\<close>

definition parse_rfc3339 :: "string \<Rightarrow> datetime option" where
  "parse_rfc3339 s =
     (if length s \<noteq> 20 \<or> s ! 4 \<noteq> CHR ''-'' \<or> s ! 7 \<noteq> CHR ''-'' \<or> s ! 10 \<noteq> CHR ''T''
         \<or> s ! 13 \<noteq> CHR '':'' \<or> s ! 16 \<noteq> CHR '':'' \<or> s ! 19 \<noteq> CHR ''Z''
      then None
      else
        (case (digits 0 (take 4 s), digits 0 (take 2 (drop 5 s)), digits 0 (take 2 (drop 8 s)),
               digits 0 (take 2 (drop 11 s)), digits 0 (take 2 (drop 14 s)),
               digits 0 (take 2 (drop 17 s))) of
           (Some y, Some m, Some d, Some h, Some mi, Some sec) \<Rightarrow>
             if 1 \<le> y \<and> 1 \<le> m \<and> m \<le> 12 \<and> 1 \<le> d \<and> d \<le> days_in_month y m
                \<and> h < 24 \<and> mi < 60 \<and> sec < 60
             then Some (int ((days_before_year y + days_before_month y m + (d - 1)) * 86400
                             + h * 3600 + mi * 60 + sec))
             else None
         | _ \<Rightarrow> None))"

subsection \<open>The credential and the services below it\<close>

text \<open>
  Modelled from the spec: the Credential of section 3, missing with the module above.
  \<open>access_token\<close> and \<open>expiry\<close> are the mutable cached state; the fields before them
  are fixed at construction.
\<close>

record credential =
  audience :: string
  subject_token_type :: string
  token_exchange_url :: string
  impersonation_url :: "string option"
  client_id :: "string option"
  client_secret :: "string option"
  scopes :: "string list"
  quota_project_id :: "string option"
  access_token :: "string option"
  expiry :: "datetime option"

text \<open>
  Modelled from the spec: the plain HTTP transport of section 1, an opaque
  \<open>send(method, url, headers, body)\<close> that answers with a status and a body, missing
  with the module above. The body of a request is a form or a JSON value; the body of
  an answer is the JSON value it decodes to.
\<close>

record http_request =
  rq_method :: string
  rq_url :: string
  rq_headers :: headers
  rq_form :: "(string \<times> string) list"
  rq_json :: "json option"

record reply =
  reply_status :: int
  reply_body :: json

text \<open>
  Modelled from the spec: what a refresh uses from the layers below the credential,
  missing with the module above: the subject token source of section 4.1
  (\<open>retrieve()\<close>, which returns the token or fails), the transport (which answers or
  fails), and the base64 text of \<open>id:secret\<close> for the Basic authorization header.
\<close>

record services =
  subject_token_source :: "error + string"
  send_http :: "http_request \<Rightarrow> error + reply"
  basic_auth :: "string \<Rightarrow> string \<Rightarrow> string"

fun str_field :: "json \<Rightarrow> string \<Rightarrow> string option" where
  "str_field (JObj kvs) k = (case map_of kvs k of Some (JStr s) \<Rightarrow> Some s | _ \<Rightarrow> None)"
| "str_field v k = None"

fun int_field :: "json \<Rightarrow> string \<Rightarrow> int option" where
  "int_field (JObj kvs) k = (case map_of kvs k of Some (JNum n) \<Rightarrow> Some n | _ \<Rightarrow> None)"
| "int_field v k = None"

fun join_spaces :: "string list \<Rightarrow> string" where
  "join_spaces [] = []"
| "join_spaces [s] = s"
| "join_spaces (s # ss) = s @ '' '' @ join_spaces ss"

subsection \<open>Token exchange (section 4.2)\<close>

text \<open>
  Modelled from the spec: the token exchange request of sections 4.2 and 6, missing
  with the module above. The scope field carries the caller's scopes only when some
  are requested and no impersonation hop follows; before an impersonation hop it
  carries the impersonation scope, which the tests give as
  \<open>https://www.googleapis.com/auth/iam\<close>. The Basic authorization header is sent
  only when both client id and secret are configured.
\<close>

definition exchange_request :: "services \<Rightarrow> credential \<Rightarrow> string \<Rightarrow> http_request" where
  "exchange_request sv c subject_token =
     \<lparr>rq_method = ''POST'',
      rq_url = token_exchange_url c,
      rq_headers =
        [(''Content-Type'', ''application/x-www-form-urlencoded'')]
        @ (case (client_id c, client_secret c) of
             (Some i, Some s) \<Rightarrow> [(''Authorization'', ''Basic '' @ basic_auth sv i s)]
           | _ \<Rightarrow> []),
      rq_form =
        [(''grant_type'', ''urn:ietf:params:oauth:grant-type:token-exchange''),
         (''audience'', audience c),
         (''requested_token_type'', ''urn:ietf:params:oauth:token-type:access_token''),
         (''subject_token'', subject_token),
         (''subject_token_type'', subject_token_type c)]
        @ (if impersonation_url c \<noteq> None then
             [(''scope'', ''https://www.googleapis.com/auth/iam'')]
           else if scopes c \<noteq> [] then [(''scope'', join_spaces (scopes c))]
           else []),
      rq_json = None\<rparr>"

text \<open>
  Modelled from the spec: the message of the OAuth protocol error of section 4.2,
  missing with the module above. It carries the three fields of the error body
  verbatim, in the wording the tests match.
\<close>

definition oauth_message :: "json \<Rightarrow> string" where
  "oauth_message body =
     ''Error code '' @ (case str_field body ''error'' of None \<Rightarrow> [] | Some s \<Rightarrow> s)
     @ '': '' @ (case str_field body ''error_description'' of None \<Rightarrow> [] | Some s \<Rightarrow> s)
     @ '' - '' @ (case str_field body ''error_uri'' of None \<Rightarrow> [] | Some s \<Rightarrow> s)"

text \<open>
  Modelled from the spec: the token exchange client of section 4.2, missing with the
  module above. One POST; an answer other than 200 is an OAuth protocol error; a 200
  answer gives \<open>access_token\<close> and \<open>expires_in\<close>; a malformed success body is treated
  as a transport error, and a failure of the transport is passed on.
\<close>

definition exchange_token :: "services \<Rightarrow> credential \<Rightarrow> string \<Rightarrow> error + (string \<times> int)" where
  "exchange_token sv c subject_token =
     (case send_http sv (exchange_request sv c subject_token) of
        Inl e \<Rightarrow> Inl e
      | Inr r \<Rightarrow>
          if reply_status r \<noteq> 200 then Inl (OAuthError (oauth_message (reply_body r)))
          else
            (case (str_field (reply_body r) ''access_token'',
                   int_field (reply_body r) ''expires_in'') of
               (Some t, Some n) \<Rightarrow> Inr (t, n)
             | _ \<Rightarrow> Inl (TransportError ''malformed token exchange response'')))"

subsection \<open>Impersonation (section 4.3)\<close>

text \<open>
  Modelled from the spec: the impersonation request of sections 4.3 and 6, missing with
  the module above: bearer authorization with the STS access token, the quota project
  header when configured, and the body \<open>{delegates: null, scope, lifetime: "3600s"}\<close>.
\<close>

definition impersonation_request :: "credential \<Rightarrow> string \<Rightarrow> string \<Rightarrow> http_request" where
  "impersonation_request c u sts_token =
     \<lparr>rq_method = ''POST'',
      rq_url = u,
      rq_headers =
        [(''Content-Type'', ''application/json'')]
        @ (case quota_project_id c of None \<Rightarrow> [] | Some q \<Rightarrow> [(''x-goog-user-project'', q)])
        @ [(''authorization'', ''Bearer '' @ sts_token)],
      rq_form = [],
      rq_json = Some (JObj [(''delegates'', JNull),
                            (''scope'', JArr (map JStr (scopes c))),
                            (''lifetime'', JStr ''3600s'')])\<rparr>"

text \<open>
  Modelled from the spec: the impersonation client of section 4.3, missing with the
  module above. An answer other than 200 is the fixed \<open>RefreshError\<close>; a 200 answer
  gives \<open>accessToken\<close> and \<open>expireTime\<close>, an RFC3339 absolute UTC timestamp that is
  parsed as such. A success body without the two fields, or whose timestamp does not
  parse, is treated like a malformed body of the exchange: as a transport error.
\<close>

definition impersonate ::
  "services \<Rightarrow> credential \<Rightarrow> string \<Rightarrow> string \<Rightarrow> error + (string \<times> datetime)" where
  "impersonate sv c u sts_token =
     (case send_http sv (impersonation_request c u sts_token) of
        Inl e \<Rightarrow> Inl e
      | Inr r \<Rightarrow>
          if reply_status r \<noteq> 200 then
            Inl (RefreshError ''Unable to acquire impersonated credentials'')
          else
            (case (str_field (reply_body r) ''accessToken'',
                   str_field (reply_body r) ''expireTime'') of
               (Some t, Some ts) \<Rightarrow>
                 (case parse_rfc3339 ts of
                    Some e \<Rightarrow> Inr (t, e)
                  | None \<Rightarrow> Inl (TransportError ''malformed impersonation response''))
             | _ \<Rightarrow> Inl (TransportError ''malformed impersonation response'')))"

subsection \<open>Refresh, expired and valid (section 4.5)\<close>

text \<open>
  Modelled from the spec: \<open>refresh(request)\<close> of section 4.5, missing with the module
  above: retrieve the subject token, exchange it, impersonate when an impersonation
  url is set (its result overrides the token and expiry of the exchange), and only
  then store \<open>accessToken\<close> and \<open>expiry\<close>. The expiry of the exchange is now plus
  \<open>expires_in\<close>. A step's failure aborts the refresh and reaches the caller as the
  error the step raised: section 7 has a protocol error surface verbatim, a transport
  error pass through unwrapped and a timeout stay a kind of its own. It returns the
  error raised, if any, and the credential afterwards.
\<close>

definition refresh :: "services \<Rightarrow> datetime \<Rightarrow> credential \<Rightarrow> error option \<times> credential" where
  "refresh sv now c =
     (case subject_token_source sv of
        Inl e \<Rightarrow> (Some e, c)
      | Inr subject_token \<Rightarrow>
          (case exchange_token sv c subject_token of
             Inl e \<Rightarrow> (Some e, c)
           | Inr (sts_token, expires_in) \<Rightarrow>
               (case impersonation_url c of
                  None \<Rightarrow>
                    (None, c\<lparr>access_token := Some sts_token,
                              expiry := Some (now + expires_in)\<rparr>)
                | Some u \<Rightarrow>
                    (case impersonate sv c u sts_token of
                       Inl e \<Rightarrow> (Some e, c)
                     | Inr (token, expire_time) \<Rightarrow>
                         (None, c\<lparr>access_token := Some token,
                                   expiry := Some expire_time\<rparr>)))))"

text \<open>
  Modelled from the spec: \<open>expired\<close> and \<open>valid\<close> of section 4.5, missing with the
  module above. The clock skew tolerance is a constant of the missing helpers, so it
  is a parameter here.
\<close>

definition expired :: "int \<Rightarrow> datetime \<Rightarrow> credential \<Rightarrow> bool" where
  "expired clock_skew now c =
     (case expiry c of None \<Rightarrow> False | Some e \<Rightarrow> now + clock_skew \<ge> e)"

definition valid :: "int \<Rightarrow> datetime \<Rightarrow> credential \<Rightarrow> bool" where
  "valid clock_skew now c = (access_token c \<noteq> None \<and> \<not> expired clock_skew now c)"

subsection \<open>The credential and the mock transport of the tests\<close>

text \<open>
  \<open>make_credentials\<close> and \<open>make_mock_request\<close> of \<open>tests/test_external_account.py\<close>:
  the transport answers the token exchange url with the first answer and every other
  url with the second; the subject token is \<open>subject_token_0\<close>.
\<close>

definition test_credential :: "string option \<Rightarrow> credential" where
  "test_credential imp =
     \<lparr>audience = ''//iam.googleapis.com/projects/123456/locations/global/workloadIdentityPools/POOL_ID/providers/PROVIDER_ID'',
      subject_token_type = ''urn:ietf:params:oauth:token-type:jwt'',
      token_exchange_url = ''https://sts.googleapis.com/v1/token'',
      impersonation_url = imp,
      client_id = None, client_secret = None, scopes = [], quota_project_id = None,
      access_token = None, expiry = None\<rparr>"

definition mock_services :: "reply \<Rightarrow> reply \<Rightarrow> services" where
  "mock_services token_reply impersonation_reply =
     \<lparr>subject_token_source = Inr ''subject_token_0'',
      send_http = (\<lambda>rq. if rq_url rq = ''https://sts.googleapis.com/v1/token''
                         then Inr token_reply else Inr impersonation_reply),
      basic_auth = (\<lambda>i s. i @ '':'' @ s)\<rparr>"

definition success_reply :: "int \<Rightarrow> reply" where
  "success_reply n =
     \<lparr>reply_status = 200,
      reply_body = JObj [(''access_token'', JStr ''ACCESS_TOKEN''),
                         (''issued_token_type'', JStr ''urn:ietf:params:oauth:token-type:access_token''),
                         (''token_type'', JStr ''Bearer''),
                         (''expires_in'', JNum n),
                         (''scope'', JStr ''scope1 scope2'')]\<rparr>"

definition error_reply :: reply where
  "error_reply =
     \<lparr>reply_status = 400,
      reply_body = JObj [(''error'', JStr ''invalid_request''),
                         (''error_description'', JStr ''Invalid subject token''),
                         (''error_uri'', JStr ''https://tools.ietf.org/html/rfc6749'')]\<rparr>"

definition impersonation_reply :: "string \<Rightarrow> reply" where
  "impersonation_reply expire_time =
     \<lparr>reply_status = 200,
      reply_body = JObj [(''accessToken'', JStr ''SA_ACCESS_TOKEN''),
                         (''expireTime'', JStr expire_time)]\<rparr>"



section \<open>Properties of the identity pool credentials\<close>

subsection \<open>The constructor\<close>

text \<open>
  C5. Constructing an identity pool credential fails when both a file source and a url
  source are given, when neither is given (also when the source is not a dict), and
  when the format is JSON and no \<open>subject_token_field_name\<close> is given. Whenever the
  constructor returns, exactly one of the file and url attributes is set, and a JSON
  format comes with a field name. As in the source, given and set are Python
  truthiness: a key that is absent, \<open>None\<close> or the empty string is not given.
\<close>

theorem Credentials_init_source_checks:
  "(truthy_str (source_file src) \<and> truthy_str (source_url src) \<longrightarrow>
      isl (Credentials_init base (Some src) codes))
   \<and> (\<not> truthy_str (source_file src) \<and> \<not> truthy_str (source_url src) \<longrightarrow>
      isl (Credentials_init base (Some src) codes))
   \<and> isl (Credentials_init base None codes)
   \<and> (source_format src = Some f \<and> format_type f = Some ''json''
        \<and> subject_token_field_name f = None \<longrightarrow>
      isl (Credentials_init base (Some src) codes))
   \<and> (Credentials_init base cs codes = Inr self \<longrightarrow>
        (truthy_str (credential_source_file self) \<noteq> truthy_str (credential_source_url self))
        \<and> (credential_source_format_type self = ''json'' \<longrightarrow>
             credential_source_field_name self \<noteq> None)
        \<and> (\<exists>s. cs = Some s \<and> credential_source_file self = source_file s
                \<and> credential_source_url self = source_url s))"
proof -
  have both: "truthy_str (source_file src) \<and> truthy_str (source_url src) \<longrightarrow>
      isl (Credentials_init base (Some src) codes)"
    by (auto simp: Credentials_init_def check_source_def Let_def split: option.splits)
  have neither: "\<not> truthy_str (source_file src) \<and> \<not> truthy_str (source_url src) \<longrightarrow>
      isl (Credentials_init base (Some src) codes)"
    by (auto simp: Credentials_init_def check_source_def Let_def split: option.splits)
  have nondict: "isl (Credentials_init base None codes)"
    by (auto simp: Credentials_init_def check_source_def split: option.splits)
  have nofield: "source_format src = Some f \<and> format_type f = Some ''json''
        \<and> subject_token_field_name f = None \<longrightarrow>
      isl (Credentials_init base (Some src) codes)"
    by (auto simp: Credentials_init_def check_source_def Let_def split: option.splits)
  have valid: "Credentials_init base cs codes = Inr self \<longrightarrow>
        (truthy_str (credential_source_file self) \<noteq> truthy_str (credential_source_url self))
        \<and> (credential_source_format_type self = ''json'' \<longrightarrow>
             credential_source_field_name self \<noteq> None)
        \<and> (\<exists>s. cs = Some s \<and> credential_source_file self = source_file s
                \<and> credential_source_url self = source_url s)"
    by (auto simp: Credentials_init_def check_source_def Let_def
             split: option.splits if_splits)
  from both neither nondict nofield valid show ?thesis by blast
qed

theorem Credentials_init_source_checks_witness:
  "isl (Credentials_init None (Some (json_source\<lparr>source_url := Some ''http://meta/token''\<rparr>)) [200])
   \<and> isl (Credentials_init None (Some (json_source\<lparr>source_file := None\<rparr>)) [200])
   \<and> isl (Credentials_init None
        (Some (json_source\<lparr>source_format :=
           Some \<lparr>format_type = Some ''json'', subject_token_field_name = None\<rparr>\<rparr>)) [200])
   \<and> Credentials_init None (Some json_source) [200] =
       Inr \<lparr>credential_source_file = Some ''/var/run/secrets/token.json'',
            credential_source_url = None, credential_source_headers = None,
            success_codes = [200], credential_source_format_type = ''json'',
            credential_source_field_name = Some ''access_token''\<rparr>
   \<and> truthy_str (Some ''/var/run/secrets/token.json'') \<noteq> truthy_str None"
proof -
  let ?made = "\<lparr>credential_source_file = Some ''/var/run/secrets/token.json'',
            credential_source_url = None, credential_source_headers = None,
            success_codes = [200], credential_source_format_type = ''json'',
            credential_source_field_name = Some ''access_token''\<rparr>"
  have made: "Credentials_init None (Some json_source) [200] = Inr ?made"
    by (simp add: Credentials_init_def check_source_def json_source_def Let_def)
  have a: "isl (Credentials_init None
             (Some (json_source\<lparr>source_url := Some ''http://meta/token''\<rparr>)) [200])"
    using Credentials_init_source_checks
            [of "json_source\<lparr>source_url := Some ''http://meta/token''\<rparr>" None "[200]"]
    by (simp add: json_source_def)
  have b: "isl (Credentials_init None (Some (json_source\<lparr>source_file := None\<rparr>)) [200])"
    using Credentials_init_source_checks [of "json_source\<lparr>source_file := None\<rparr>" None "[200]"]
    by (simp add: json_source_def)
  have c: "isl (Credentials_init None
        (Some (json_source\<lparr>source_format :=
           Some \<lparr>format_type = Some ''json'', subject_token_field_name = None\<rparr>\<rparr>)) [200])"
    using Credentials_init_source_checks
            [of "json_source\<lparr>source_format :=
                   Some \<lparr>format_type = Some ''json'', subject_token_field_name = None\<rparr>\<rparr>"
                None "[200]" "\<lparr>format_type = Some ''json'', subject_token_field_name = None\<rparr>"]
    by simp
  have d: "truthy_str (Some ''/var/run/secrets/token.json'') \<noteq> truthy_str None"
    using Credentials_init_source_checks
            [of json_source None "[200]" _ "Some json_source" ?made] made
    by (simp add: json_source_def)
  from a b c made d show ?thesis by blast
qed

subsection \<open>Retrieving the subject token\<close>

lemma subscript_Inr:
  "subscript v field = Inr token \<longleftrightarrow>
     (\<exists>kvs k. v = JObj kvs \<and> field = Some k \<and> map_of kvs k = Some token)"
  by (cases "(v, field)" rule: subscript.cases) (auto split: option.splits)

lemma parse_token_data_text:
  "parse_token_data env (Some (content, origin)) ''text'' field = Inr token
     \<longleftrightarrow> token = JStr content \<and> content \<noteq> []"
  by (auto simp: parse_token_data_def)

lemma parse_token_data_json:
  assumes "ftype \<noteq> ''text''"
  shows "parse_token_data env (Some (content, origin)) ftype field = Inr token \<longleftrightarrow>
     (\<exists>kvs k. field = Some k \<and> json_loads env content = Some (JObj kvs)
             \<and> map_of kvs k = Some token \<and> truthy token)"
  using assms
  apply (simp add: parse_token_data_def split: option.splits sum.splits error.splits)
  apply (auto simp: subscript_Inr)
  done

lemma get_token_data_Some:
  assumes "get_token_data env self = Inr (Some (content, origin))"
  shows "if truthy_str (credential_source_file self)
         then credential_source_file self = Some origin \<and> path_exists env origin
              \<and> read_file env origin = Inr content
         else credential_source_url self = Some origin
              \<and> (\<exists>st. urlopen env origin = Inr (st, content) \<and> st \<in> set (success_codes self))"
  using assms
  by (cases "credential_source_file self"; cases "credential_source_url self")
     (auto simp: get_token_data_def get_file_data_def get_url_data_def
           split: if_splits sum.splits prod.splits)

text \<open>
  C7. When retrieval succeeds, the raw content was read from the configured file (or
  fetched from the configured url). With the text format the token is that content,
  verbatim; with the JSON format the content parsed to an object and the token is the
  value stored there under the configured field name. A source configured without a
  format (or without a format type) is constructed with the text format.
\<close>

theorem retrieve_subject_token_value:
  "(retrieve_subject_token env self = Inr token \<longrightarrow>
      (\<exists>content origin.
          get_token_data env self = Inr (Some (content, origin))
        \<and> (if truthy_str (credential_source_file self)
           then credential_source_file self = Some origin \<and> read_file env origin = Inr content
           else credential_source_url self = Some origin
                \<and> (\<exists>st. urlopen env origin = Inr (st, content)))
        \<and> (credential_source_format_type self = ''text'' \<longrightarrow> token = JStr content)
        \<and> (credential_source_format_type self = ''json'' \<longrightarrow>
             (\<exists>kvs k. credential_source_field_name self = Some k
                    \<and> json_loads env content = Some (JObj kvs)
                    \<and> map_of kvs k = Some token))))
   \<and> (Credentials_init base (Some src) codes = Inr made
        \<and> (case source_format src of None \<Rightarrow> True | Some f \<Rightarrow> format_type f = None) \<longrightarrow>
      credential_source_format_type made = ''text'')"
proof -
  have val: "\<exists>content origin.
          get_token_data env self = Inr (Some (content, origin))
        \<and> (if truthy_str (credential_source_file self)
           then credential_source_file self = Some origin \<and> read_file env origin = Inr content
           else credential_source_url self = Some origin
                \<and> (\<exists>st. urlopen env origin = Inr (st, content)))
        \<and> (credential_source_format_type self = ''text'' \<longrightarrow> token = JStr content)
        \<and> (credential_source_format_type self = ''json'' \<longrightarrow>
             (\<exists>kvs k. credential_source_field_name self = Some k
                    \<and> json_loads env content = Some (JObj kvs)
                    \<and> map_of kvs k = Some token))"
    if ok: "retrieve_subject_token env self = Inr token"
  proof -
    from ok obtain tc where tc: "get_token_data env self = Inr tc"
      and p: "parse_token_data env tc (credential_source_format_type self)
                (credential_source_field_name self) = Inr token"
      by (auto simp: retrieve_subject_token_def split: sum.splits)
    from p obtain content origin where tc': "tc = Some (content, origin)"
      by (cases tc) (auto simp: parse_token_data_def)
    note g = get_token_data_Some[OF tc[unfolded tc']]
    have src: "if truthy_str (credential_source_file self)
           then credential_source_file self = Some origin \<and> read_file env origin = Inr content
           else credential_source_url self = Some origin
                \<and> (\<exists>st. urlopen env origin = Inr (st, content))"
      using g by (auto split: if_splits)
    have t: "credential_source_format_type self = ''text'' \<longrightarrow> token = JStr content"
      using p tc' parse_token_data_text[of env content origin] by auto
    have j: "credential_source_format_type self = ''json'' \<longrightarrow>
             (\<exists>kvs k. credential_source_field_name self = Some k
                    \<and> json_loads env content = Some (JObj kvs)
                    \<and> map_of kvs k = Some token)"
    proof
      assume js: "credential_source_format_type self = ''json''"
      then have "credential_source_format_type self \<noteq> ''text''" by simp
      from parse_token_data_json[OF this, of env content origin] p tc'
      show "\<exists>kvs k. credential_source_field_name self = Some k
                    \<and> json_loads env content = Some (JObj kvs)
                    \<and> map_of kvs k = Some token"
        by blast
    qed
    from tc tc' src t j show ?thesis by blast
  qed
  have dflt: "Credentials_init base (Some src) codes = Inr made
        \<and> (case source_format src of None \<Rightarrow> True | Some f \<Rightarrow> format_type f = None) \<longrightarrow>
      credential_source_format_type made = ''text''"
    by (auto simp: Credentials_init_def check_source_def Let_def
             split: option.splits if_splits)
  from val dflt show ?thesis by blast
qed

theorem retrieve_subject_token_value_witness:
  "retrieve_subject_token (example_files token_document)
      \<lparr>credential_source_file = Some ''/var/run/secrets/token.json'',
       credential_source_url = None, credential_source_headers = None,
       success_codes = [200], credential_source_format_type = ''json'',
       credential_source_field_name = Some ''access_token''\<rparr> = Inr (JStr ''TOKEN'')
   \<and> (\<exists>kvs. json_loads (example_files token_document) token_document
               = Some (JObj kvs) \<and> map_of kvs ''access_token'' = Some (JStr ''TOKEN''))
   \<and> Credentials_init None (Some text_source) [200] =
       Inr \<lparr>credential_source_file = Some ''/var/run/secrets/token'',
            credential_source_url = None, credential_source_headers = None,
            success_codes = [200], credential_source_format_type = ''text'',
            credential_source_field_name = None\<rparr>
   \<and> retrieve_subject_token (example_files [])
      \<lparr>credential_source_file = Some ''/var/run/secrets/token'',
       credential_source_url = None, credential_source_headers = None,
       success_codes = [200], credential_source_format_type = ''text'',
       credential_source_field_name = None\<rparr> = Inr (JStr ''HEADER.PAYLOAD.SIG'')"
proof -
  let ?env = "example_files token_document"
  let ?jc = "\<lparr>credential_source_file = Some ''/var/run/secrets/token.json'',
       credential_source_url = None, credential_source_headers = None,
       success_codes = [200], credential_source_format_type = ''json'',
       credential_source_field_name = Some ''access_token''\<rparr>"
  let ?tc = "\<lparr>credential_source_file = Some ''/var/run/secrets/token'',
       credential_source_url = None, credential_source_headers = None,
       success_codes = [200], credential_source_format_type = ''text'',
       credential_source_field_name = None\<rparr>"
  have r1: "retrieve_subject_token ?env ?jc = Inr (JStr ''TOKEN'')"
    by (simp add: retrieve_subject_token_def get_token_data_def get_file_data_def
                  parse_token_data_def example_files_def token_document_def)
  have r2: "retrieve_subject_token (example_files []) ?tc = Inr (JStr ''HEADER.PAYLOAD.SIG'')"
    by (simp add: retrieve_subject_token_def get_token_data_def get_file_data_def
                  parse_token_data_def example_files_def token_document_def)
  have i: "Credentials_init None (Some text_source) [200] = Inr ?tc"
    by (simp add: Credentials_init_def check_source_def text_source_def Let_def)
  have g: "get_token_data ?env ?jc
             = Inr (Some (token_document, ''/var/run/secrets/token.json''))"
    by (simp add: get_token_data_def get_file_data_def example_files_def token_document_def)
  from retrieve_subject_token_value
         [of ?env ?jc "JStr ''TOKEN''" None text_source "[200]" ?tc] r1 i
  have "\<exists>content origin.
          get_token_data ?env ?jc = Inr (Some (content, origin))
        \<and> (\<exists>kvs k. credential_source_field_name ?jc = Some k
                    \<and> json_loads ?env content = Some (JObj kvs)
                    \<and> map_of kvs k = Some (JStr ''TOKEN''))"
    by (auto simp: text_source_def)
  with g have "\<exists>kvs. json_loads ?env token_document = Some (JObj kvs)
                  \<and> map_of kvs ''access_token'' = Some (JStr ''TOKEN'')"
    by auto
  with r1 r2 i show ?thesis by blast
qed

text \<open>
  The failures \<open>retrieve_subject_token\<close> reports as \<open>RefreshError\<close>: a file that does
  not exist, a response returned by \<open>urlopen\<close> with a status outside the success
  codes, content that \<open>json.loads\<close> rejects, a JSON object without the configured
  key, and a token that is empty. What \<open>urlopen\<close> or the file read raise by
  themselves is not among them: it passes through as it is.
\<close>

lemma retrieve_subject_token_refresh_errors:
  "(truthy_str (credential_source_file self)
      \<and> \<not> path_exists env (format_opt (credential_source_file self)) \<longrightarrow>
      retrieve_subject_token env self = Inl (RefreshError
        (''File '' @ quoted (format_opt (credential_source_file self)) @ '' was not found.'')))
   \<and> (\<not> truthy_str (credential_source_file self) \<and> truthy_str (credential_source_url self)
      \<and> urlopen env (format_opt (credential_source_url self)) = Inr (st, body)
      \<and> st \<notin> set (success_codes self) \<longrightarrow>
      retrieve_subject_token env self = Inl (RefreshError
        (''Url '' @ quoted (format_opt (credential_source_url self)) @ '' was not found.'')))
   \<and> (get_token_data env self = Inr (Some (content, origin))
      \<and> credential_source_format_type self \<noteq> ''text''
      \<and> json_loads env content = None \<longrightarrow>
      retrieve_subject_token env self
        = Inl (parse_failure origin (credential_source_field_name self)))
   \<and> (get_token_data env self = Inr (Some (content, origin))
      \<and> credential_source_format_type self \<noteq> ''text''
      \<and> json_loads env content = Some (JObj kvs)
      \<and> credential_source_field_name self = Some k \<and> map_of kvs k = None \<longrightarrow>
      retrieve_subject_token env self
        = Inl (parse_failure origin (credential_source_field_name self)))
   \<and> (get_token_data env self = Inr (Some (content, origin))
      \<and> credential_source_format_type self = ''text'' \<and> content = [] \<longrightarrow>
      retrieve_subject_token env self
        = Inl (RefreshError ''Missing subject_token in the credential_source file''))"
  by (auto simp: retrieve_subject_token_def get_token_data_def get_file_data_def
                 get_url_data_def parse_token_data_def
           split: option.splits sum.splits)

text \<open>
  C6. Retrieval is to fail with \<open>RefreshError\<close>, never with a raw exception,
  whenever the field name is absent from the parsed JSON. For a file whose
  content is the JSON array \<open>[]\<close> the subscript raises \<open>TypeError\<close>, which the
  \<open>except (KeyError, ValueError)\<close> clause does not catch: the caller gets the raw
  \<open>TypeError\<close>. The credential is the one the constructor builds from \<open>json_source\<close>.
\<close>

theorem retrieve_subject_token_raw_type_error:
  "Credentials_init None (Some json_source) [200] =
       Inr \<lparr>credential_source_file = Some ''/var/run/secrets/token.json'',
            credential_source_url = None, credential_source_headers = None,
            success_codes = [200], credential_source_format_type = ''json'',
            credential_source_field_name = Some ''access_token''\<rparr>
   \<and> retrieve_subject_token (example_files ''[]'')
      \<lparr>credential_source_file = Some ''/var/run/secrets/token.json'',
       credential_source_url = None, credential_source_headers = None,
       success_codes = [200], credential_source_format_type = ''json'',
       credential_source_field_name = Some ''access_token''\<rparr>
     = Inl (TypeError ''list indices must be integers or slices, not str'')"
  by (simp add: Credentials_init_def check_source_def json_source_def Let_def
                retrieve_subject_token_def get_token_data_def get_file_data_def
                parse_token_data_def example_files_def token_document_def)

section \<open>Properties of the aiohttp transport\<close>

subsection \<open>Traces of one call\<close>

lemma send_with_credentials_trace:
  assumes "send_with_credentials ops c hdrs budget w = (Inr (response, remaining), w1)"
  shows "\<exists>hs. trace w1 = trace w
           @ [BeforeRequest (case hdrs of None \<Rightarrow> [] | Some h \<Rightarrow> heap w h), Sent hs]"
  using assms
  by (auto simp: send_with_credentials_def Let_def split: sum.splits)

lemma forced_refresh_trace:
  "trace (snd (forced_refresh ops c remaining w)) = trace w @ [ForcedRefresh]"
  by (auto simp: forced_refresh_def Let_def split: sum.splits option.splits)

lemma request_unfold:
  assumes "send_with_credentials ops c hdrs budget w = (Inr (response, remaining), w1)"
  shows "request ops self c hdrs budget attempt w =
     (if status response \<in> set (refresh_status_codes self)
         \<and> attempt < max_refresh_attempts self
      then (case forced_refresh ops c remaining w1 of
              (Inl e, w2) \<Rightarrow> (Inl e, w2)
            | (Inr remaining', w2) \<Rightarrow> request ops self c hdrs remaining' (attempt + 1) w2)
      else (Inr response, w1))"
  using assms by (subst request.simps) simp

lemma request_failed_first:
  assumes "send_with_credentials ops c hdrs budget w = (Inl e, w1)"
  shows "request ops self c hdrs budget attempt w = (Inl e, w1)"
  using assms by (subst request.simps) simp

text \<open>
  Every call that returns a response made one underlying call more than it forced
  refreshes, forced at most as many refreshes as attempts were left, and returns a
  response with a refresh status only when no attempt is left.
\<close>

lemma request_counts:
  "request ops self c hdrs budget attempt w = (Inr r, w') \<Longrightarrow>
     \<exists>new. trace w' = trace w @ new
       \<and> underlying_calls new = forced_refreshes new + 1
       \<and> int (forced_refreshes new) \<le> max 0 (max_refresh_attempts self - attempt)
       \<and> (status r \<in> set (refresh_status_codes self) \<longrightarrow>
            max_refresh_attempts self \<le> attempt + int (forced_refreshes new))"
proof (induction ops self c hdrs budget attempt w rule: request.induct)
  case (1 ops self c hdrs budget attempt w)
  obtain res w1 where swc: "send_with_credentials ops c hdrs budget w = (res, w1)"
    by (cases "send_with_credentials ops c hdrs budget w")
  show ?case
  proof (cases res)
    case (Inl e)
    with swc "1.prems" request_failed_first[of ops c hdrs budget w e w1 self attempt]
    show ?thesis by simp
  next
    case (Inr p)
    obtain response remaining where p: "p = (response, remaining)" by (cases p)
    have s: "send_with_credentials ops c hdrs budget w = (Inr (response, remaining), w1)"
      using swc Inr p by simp
    from send_with_credentials_trace[OF s] obtain new1 where
      tr: "trace w1 = trace w @ new1" "underlying_calls new1 = 1" "forced_refreshes new1 = 0"
      by (auto simp: underlying_calls_def forced_refreshes_def)
    show ?thesis
    proof (cases "status response \<in> set (refresh_status_codes self)
                  \<and> attempt < max_refresh_attempts self")
      case False
      with "1.prems" request_unfold[OF s, of self attempt]
      have "r = response" "w' = w1" by auto
      with tr False show ?thesis by auto
    next
      case True
      obtain res2 w2 where fr: "forced_refresh ops c remaining w1 = (res2, w2)"
        by (cases "forced_refresh ops c remaining w1")
      have tr2: "trace w2 = trace w1 @ [ForcedRefresh]"
        using forced_refresh_trace[of ops c remaining w1] fr by simp
      show ?thesis
      proof (cases res2)
        case (Inl e)
        with "1.prems" request_unfold[OF s, of self attempt] True fr show ?thesis by simp
      next
        case (Inr remaining')
        have rec: "request ops self c hdrs remaining' (attempt + 1) w2 = (Inr r, w')"
          using "1.prems" request_unfold[OF s, of self attempt] True fr Inr by simp
        from "1.IH"[OF s[symmetric] refl refl _ fr[symmetric] Inr rec] True
        obtain new2 where IH: "trace w' = trace w2 @ new2"
            "underlying_calls new2 = forced_refreshes new2 + 1"
            "int (forced_refreshes new2) \<le> max 0 (max_refresh_attempts self - (attempt + 1))"
            "status r \<in> set (refresh_status_codes self) \<longrightarrow>
               max_refresh_attempts self \<le> (attempt + 1) + int (forced_refreshes new2)"
          by auto
        let ?new = "new1 @ [ForcedRefresh] @ new2"
        have "trace w' = trace w @ ?new" using IH(1) tr(1) tr2 by simp
        moreover have "underlying_calls ?new = forced_refreshes ?new + 1"
          using IH(2) tr by (simp add: underlying_calls_def forced_refreshes_def)
        moreover have "forced_refreshes ?new = forced_refreshes new2 + 1"
          using tr by (simp add: forced_refreshes_def)
        ultimately show ?thesis using IH(3,4) True by (intro exI[of _ ?new]) auto
      qed
    qed
  qed
qed

subsection \<open>Refresh and retry\<close>

text \<open>
  A forced refresh is a run of \<open>credentials.refresh\<close>: the state it leaves is the one
  that run returned, its outcome is that run's error or else the verdict of the guard
  on the time the run took, and it touches no headers dict.
\<close>

lemma forced_refresh_runs_refresh:
  "outside (snd (forced_refresh ops c remaining w))
     = snd (snd (credentials_refresh ops (outside w) c))
   \<and> fst (forced_refresh ops c remaining w)
     = (case fst (snd (credentials_refresh ops (outside w) c)) of
          Some e \<Rightarrow> Inl e
        | None \<Rightarrow> TimeoutGuard remaining (fst (credentials_refresh ops (outside w) c)))
   \<and> heap (snd (forced_refresh ops c remaining w)) = heap w
   \<and> next_addr (snd (forced_refresh ops c remaining w)) = next_addr w"
  by (auto simp: forced_refresh_def Let_def split: sum.splits option.splits)

lemma send_with_credentials_counting:
  assumes "send_with_credentials (counting ops) c hdrs budget w = (res, w1)"
  shows "\<exists>new. trace w1 = trace w @ new
           \<and> calls_made (outside w1) = calls_made (outside w) + underlying_calls new
           \<and> refreshes_made (outside w1) = refreshes_made (outside w) + forced_refreshes new
           \<and> (\<not> isl res \<longrightarrow> underlying_calls new = 1 \<and> forced_refreshes new = 0)"
  using assms
  by (auto simp: send_with_credentials_def counting_def Let_def underlying_calls_def
                 forced_refreshes_def
           split: sum.splits)

lemma forced_refresh_counting:
  assumes "forced_refresh (counting ops) c remaining w = (res, w2)"
  shows "trace w2 = trace w @ [ForcedRefresh]"
    and "refreshes_made (outside w2) = Suc (refreshes_made (outside w))"
    and "calls_made (outside w2) = calls_made (outside w)"
    and "inner (outside w2) = snd (snd (credentials_refresh ops (inner (outside w)) c))"
  using assms
  by (auto simp: forced_refresh_def counting_def Let_def split: sum.splits option.splits)

text \<open>
  Whatever its outcome, a call sent exactly as many underlying requests and ran
  \<open>credentials.refresh\<close> exactly as many times as its trace says; when it returns a
  response it sent one request more than it ran refreshes, and it ran at most as many
  refreshes as attempts were left.
\<close>

lemma request_counting:
  "request cops self c hdrs budget attempt w = (res, w') \<Longrightarrow> cops = counting ops \<Longrightarrow>
     \<exists>new. trace w' = trace w @ new
       \<and> calls_made (outside w') = calls_made (outside w) + underlying_calls new
       \<and> refreshes_made (outside w') = refreshes_made (outside w) + forced_refreshes new
       \<and> int (forced_refreshes new) \<le> max 0 (max_refresh_attempts self - attempt)
       \<and> (\<not> isl res \<longrightarrow> underlying_calls new = forced_refreshes new + 1)"
proof (induction cops self c hdrs budget attempt w rule: request.induct)
  case (1 cops self c hdrs budget attempt w)
  note cops = "1.prems"(2)
  obtain res1 w1 where swc: "send_with_credentials cops c hdrs budget w = (res1, w1)"
    by (cases "send_with_credentials cops c hdrs budget w")
  from send_with_credentials_counting[OF swc[unfolded cops]] obtain new1 where
    tr: "trace w1 = trace w @ new1"
      "calls_made (outside w1) = calls_made (outside w) + underlying_calls new1"
      "refreshes_made (outside w1) = refreshes_made (outside w) + forced_refreshes new1"
      "\<not> isl res1 \<longrightarrow> underlying_calls new1 = 1 \<and> forced_refreshes new1 = 0"
    by blast
  show ?case
  proof (cases res1)
    case (Inl e)
    with swc "1.prems"(1) request_failed_first[of cops c hdrs budget w e w1 self attempt]
    have "res = Inl e" "w' = w1" by simp_all
    moreover have "forced_refreshes new1 = 0"
      using swc[unfolded cops] tr(1) Inl
      by (auto simp: send_with_credentials_def counting_def Let_def forced_refreshes_def
               split: sum.splits)
    ultimately show ?thesis using tr by (intro exI[of _ new1]) simp
  next
    case (Inr p)
    obtain response remaining where p: "p = (response, remaining)" by (cases p)
    have s: "send_with_credentials cops c hdrs budget w = (Inr (response, remaining), w1)"
      using swc Inr p by simp
    have one: "underlying_calls new1 = 1" "forced_refreshes new1 = 0"
      using tr(4) Inr by simp_all
    show ?thesis
    proof (cases "status response \<in> set (refresh_status_codes self)
                  \<and> attempt < max_refresh_attempts self")
      case False
      with "1.prems"(1) request_unfold[OF s, of self attempt]
      have "res = Inr response" "w' = w1" by auto
      then show ?thesis using tr one by (intro exI[of _ new1]) simp
    next
      case True
      obtain res2 w2 where fr: "forced_refresh cops c remaining w1 = (res2, w2)"
        by (cases "forced_refresh cops c remaining w1")
      note f2 = forced_refresh_counting[OF fr[unfolded cops]]
      show ?thesis
      proof (cases res2)
        case (Inl e)
        with "1.prems"(1) request_unfold[OF s, of self attempt] True fr
        have "res = Inl e" "w' = w2" by simp_all
        moreover have "trace w2 = trace w @ (new1 @ [ForcedRefresh])"
          using f2(1) tr(1) by simp
        moreover have "forced_refreshes (new1 @ [ForcedRefresh]) = 1"
          "underlying_calls (new1 @ [ForcedRefresh]) = 1"
          using one by (simp_all add: forced_refreshes_def underlying_calls_def)
        ultimately show ?thesis using tr f2 one True
          by (intro exI[of _ "new1 @ [ForcedRefresh]"]) auto
      next
        case (Inr remaining')
        have rec: "request cops self c hdrs remaining' (attempt + 1) w2 = (res, w')"
          using "1.prems"(1) request_unfold[OF s, of self attempt] True fr Inr by simp
        from "1.IH"[OF s[symmetric] refl refl _ fr[symmetric] Inr rec cops] True
        obtain new2 where IH: "trace w' = trace w2 @ new2"
            "calls_made (outside w') = calls_made (outside w2) + underlying_calls new2"
            "refreshes_made (outside w') = refreshes_made (outside w2) + forced_refreshes new2"
            "int (forced_refreshes new2) \<le> max 0 (max_refresh_attempts self - (attempt + 1))"
            "\<not> isl res \<longrightarrow> underlying_calls new2 = forced_refreshes new2 + 1"
          by auto
        let ?new = "new1 @ [ForcedRefresh] @ new2"
        have a: "trace w' = trace w @ ?new" using IH(1) tr(1) f2(1) by simp
        have b: "underlying_calls ?new = 1 + underlying_calls new2"
          using one by (simp add: underlying_calls_def)
        have d: "forced_refreshes ?new = 1 + forced_refreshes new2"
          using one by (simp add: forced_refreshes_def)
        show ?thesis using a b d IH(2-5) tr(2,3) f2(2,3) one True
          by (intro exI[of _ ?new]) auto
      qed
    qed
  qed
qed

text \<open>
  C1. Once \<open>before_request\<close> and the underlying call have gone through: if the
  response status is in the refresh status codes and the attempt counter is below the
  maximum, the call runs \<open>credentials.refresh\<close> once (the state it goes on with is the
  one that run returned) and, unless the refresh fails, repeats itself with the
  counter incremented; otherwise it returns the response as it is. Counted by the
  collaborators themselves: whatever the outcome, the underlying requests sent and the
  refreshes run are those of the trace, and a call that returns a response sent one
  request more than it ran refreshes. In particular, when the first response has a
  refresh status, an attempt is left, and the retry's response has no refresh status,
  the call returns the retry's response after exactly 2 underlying requests and
  exactly 1 run of \<open>credentials.refresh\<close>, and the retry starts from the refreshed
  credentials.
\<close>

theorem request_refresh_and_retry:
  "(send_with_credentials ops c hdrs budget w = (Inr (response, remaining), w1) \<longrightarrow>
      (status response \<in> set (refresh_status_codes self)
          \<and> attempt < max_refresh_attempts self \<longrightarrow>
          outside (snd (forced_refresh ops c remaining w1))
            = snd (snd (credentials_refresh ops (outside w1) c))
          \<and> fst (forced_refresh ops c remaining w1)
            = (case fst (snd (credentials_refresh ops (outside w1) c)) of
                 Some e \<Rightarrow> Inl e
               | None \<Rightarrow> TimeoutGuard remaining (fst (credentials_refresh ops (outside w1) c)))
          \<and> forced_refreshes (trace (snd (forced_refresh ops c remaining w1)))
            = forced_refreshes (trace w1) + 1
          \<and> request ops self c hdrs budget attempt w =
            (case forced_refresh ops c remaining w1 of
               (Inl e, w2) \<Rightarrow> (Inl e, w2)
             | (Inr remaining', w2) \<Rightarrow> request ops self c hdrs remaining' (attempt + 1) w2))
      \<and> (\<not> (status response \<in> set (refresh_status_codes self)
              \<and> attempt < max_refresh_attempts self) \<longrightarrow>
            request ops self c hdrs budget attempt w = (Inr response, w1)))
   \<and> (request (counting ops) self c hdrs budget attempt v = (res, v') \<longrightarrow>
        (\<exists>new. trace v' = trace v @ new
           \<and> calls_made (outside v') = calls_made (outside v) + underlying_calls new
           \<and> refreshes_made (outside v') = refreshes_made (outside v) + forced_refreshes new
           \<and> int (forced_refreshes new) \<le> max 0 (max_refresh_attempts self - attempt)
           \<and> (\<not> isl res \<longrightarrow> underlying_calls new = forced_refreshes new + 1)))
   \<and> (send_with_credentials (counting ops) c hdrs budget v = (Inr (response1, remaining1), v1)
        \<and> status response1 \<in> set (refresh_status_codes self)
        \<and> attempt < max_refresh_attempts self
        \<and> forced_refresh (counting ops) c remaining1 v1 = (Inr remaining2, v2)
        \<and> send_with_credentials (counting ops) c hdrs remaining2 v2
             = (Inr (response2, remaining3), v3)
        \<and> status response2 \<notin> set (refresh_status_codes self) \<longrightarrow>
          request (counting ops) self c hdrs budget attempt v = (Inr response2, v3)
          \<and> calls_made (outside v3) = calls_made (outside v) + 2
          \<and> refreshes_made (outside v3) = refreshes_made (outside v) + 1
          \<and> inner (outside v2) = snd (snd (credentials_refresh ops (inner (outside v1)) c))
          \<and> fst (snd (credentials_refresh ops (inner (outside v1)) c)) = None)"
proof -
  let ?retry = "status response \<in> set (refresh_status_codes self)
                \<and> attempt < max_refresh_attempts self"
  have step: "send_with_credentials ops c hdrs budget w = (Inr (response, remaining), w1) \<longrightarrow>
      (?retry \<longrightarrow>
          outside (snd (forced_refresh ops c remaining w1))
            = snd (snd (credentials_refresh ops (outside w1) c))
          \<and> fst (forced_refresh ops c remaining w1)
            = (case fst (snd (credentials_refresh ops (outside w1) c)) of
                 Some e \<Rightarrow> Inl e
               | None \<Rightarrow> TimeoutGuard remaining (fst (credentials_refresh ops (outside w1) c)))
          \<and> forced_refreshes (trace (snd (forced_refresh ops c remaining w1)))
            = forced_refreshes (trace w1) + 1
          \<and> request ops self c hdrs budget attempt w =
            (case forced_refresh ops c remaining w1 of
               (Inl e, w2) \<Rightarrow> (Inl e, w2)
             | (Inr remaining', w2) \<Rightarrow> request ops self c hdrs remaining' (attempt + 1) w2))
      \<and> (\<not> ?retry \<longrightarrow> request ops self c hdrs budget attempt w = (Inr response, w1))"
  proof
    assume s: "send_with_credentials ops c hdrs budget w = (Inr (response, remaining), w1)"
    note unf = request_unfold[OF s, of self attempt]
    have a: "?retry \<longrightarrow>
          outside (snd (forced_refresh ops c remaining w1))
            = snd (snd (credentials_refresh ops (outside w1) c))
          \<and> fst (forced_refresh ops c remaining w1)
            = (case fst (snd (credentials_refresh ops (outside w1) c)) of
                 Some e \<Rightarrow> Inl e
               | None \<Rightarrow> TimeoutGuard remaining (fst (credentials_refresh ops (outside w1) c)))
          \<and> forced_refreshes (trace (snd (forced_refresh ops c remaining w1)))
            = forced_refreshes (trace w1) + 1
          \<and> request ops self c hdrs budget attempt w =
            (case forced_refresh ops c remaining w1 of
               (Inl e, w2) \<Rightarrow> (Inl e, w2)
             | (Inr remaining', w2) \<Rightarrow> request ops self c hdrs remaining' (attempt + 1) w2)"
      using unf forced_refresh_trace[of ops c remaining w1]
            forced_refresh_runs_refresh[of ops c remaining w1]
      by (simp add: forced_refreshes_def)
    have b: "\<not> ?retry \<longrightarrow> request ops self c hdrs budget attempt w = (Inr response, w1)"
      using unf by simp
    from a b show "(?retry \<longrightarrow>
          outside (snd (forced_refresh ops c remaining w1))
            = snd (snd (credentials_refresh ops (outside w1) c))
          \<and> fst (forced_refresh ops c remaining w1)
            = (case fst (snd (credentials_refresh ops (outside w1) c)) of
                 Some e \<Rightarrow> Inl e
               | None \<Rightarrow> TimeoutGuard remaining (fst (credentials_refresh ops (outside w1) c)))
          \<and> forced_refreshes (trace (snd (forced_refresh ops c remaining w1)))
            = forced_refreshes (trace w1) + 1
          \<and> request ops self c hdrs budget attempt w =
            (case forced_refresh ops c remaining w1 of
               (Inl e, w2) \<Rightarrow> (Inl e, w2)
             | (Inr remaining', w2) \<Rightarrow> request ops self c hdrs remaining' (attempt + 1) w2))
      \<and> (\<not> ?retry \<longrightarrow> request ops self c hdrs budget attempt w = (Inr response, w1))"
      by blast
  qed
  have counts: "request (counting ops) self c hdrs budget attempt v = (res, v') \<longrightarrow>
        (\<exists>new. trace v' = trace v @ new
           \<and> calls_made (outside v') = calls_made (outside v) + underlying_calls new
           \<and> refreshes_made (outside v') = refreshes_made (outside v) + forced_refreshes new
           \<and> int (forced_refreshes new) \<le> max 0 (max_refresh_attempts self - attempt)
           \<and> (\<not> isl res \<longrightarrow> underlying_calls new = forced_refreshes new + 1))"
    using request_counting[of "counting ops" self c hdrs budget attempt v res v' ops] by blast
  have scenario:
    "send_with_credentials (counting ops) c hdrs budget v = (Inr (response1, remaining1), v1)
        \<and> status response1 \<in> set (refresh_status_codes self)
        \<and> attempt < max_refresh_attempts self
        \<and> forced_refresh (counting ops) c remaining1 v1 = (Inr remaining2, v2)
        \<and> send_with_credentials (counting ops) c hdrs remaining2 v2
             = (Inr (response2, remaining3), v3)
        \<and> status response2 \<notin> set (refresh_status_codes self) \<longrightarrow>
          request (counting ops) self c hdrs budget attempt v = (Inr response2, v3)
          \<and> calls_made (outside v3) = calls_made (outside v) + 2
          \<and> refreshes_made (outside v3) = refreshes_made (outside v) + 1
          \<and> inner (outside v2) = snd (snd (credentials_refresh ops (inner (outside v1)) c))
          \<and> fst (snd (credentials_refresh ops (inner (outside v1)) c)) = None"
  proof
    assume h: "send_with_credentials (counting ops) c hdrs budget v
                 = (Inr (response1, remaining1), v1)
        \<and> status response1 \<in> set (refresh_status_codes self)
        \<and> attempt < max_refresh_attempts self
        \<and> forced_refresh (counting ops) c remaining1 v1 = (Inr remaining2, v2)
        \<and> send_with_credentials (counting ops) c hdrs remaining2 v2
             = (Inr (response2, remaining3), v3)
        \<and> status response2 \<notin> set (refresh_status_codes self)"
    then have s1: "send_with_credentials (counting ops) c hdrs budget v
                     = (Inr (response1, remaining1), v1)"
      and fr: "forced_refresh (counting ops) c remaining1 v1 = (Inr remaining2, v2)"
      and s2: "send_with_credentials (counting ops) c hdrs remaining2 v2
                 = (Inr (response2, remaining3), v3)"
      by simp_all
    have run: "request (counting ops) self c hdrs budget attempt v = (Inr response2, v3)"
      using request_unfold[OF s1, of self attempt]
            request_unfold[OF s2, of self "attempt + 1"] h
      by simp
    from send_with_credentials_counting[OF s1] have c1:
      "calls_made (outside v1) = calls_made (outside v) + 1"
      "refreshes_made (outside v1) = refreshes_made (outside v)"
      by auto
    from send_with_credentials_counting[OF s2] have c3:
      "calls_made (outside v3) = calls_made (outside v2) + 1"
      "refreshes_made (outside v3) = refreshes_made (outside v2)"
      by auto
    note c2 = forced_refresh_counting[OF fr]
    have ok: "fst (snd (credentials_refresh ops (inner (outside v1)) c)) = None"
      using fr by (auto simp: forced_refresh_def counting_def Let_def
                        split: option.splits sum.splits)
    from run c1 c2 c3 ok
    show "request (counting ops) self c hdrs budget attempt v = (Inr response2, v3)
          \<and> calls_made (outside v3) = calls_made (outside v) + 2
          \<and> refreshes_made (outside v3) = refreshes_made (outside v) + 1
          \<and> inner (outside v2) = snd (snd (credentials_refresh ops (inner (outside v1)) c))
          \<and> fst (snd (credentials_refresh ops (inner (outside v1)) c)) = None"
      by simp
  qed
  from step counts scenario show ?thesis by (intro conjI)
qed

lemmas stub_defs = send_with_credentials_def forced_refresh_def stub_ops_def stub_world_def
  Let_def TimeoutGuard_def get_call_def counting_def counted_stub_world_def

text \<open>
  The stub session answering 401 and then 200, with one refresh attempt allowed: the
  call returns the 200, the wrapped client was asked twice, \<open>credentials.refresh\<close> ran
  once, and the credentials hold the refreshed token.
\<close>

theorem request_refresh_and_retry_witness:
  "fst (request (counting (stub_ops 0 0 0))
          \<lparr>refresh_status_codes = [401], max_refresh_attempts = 1\<rparr>
          get_call None None 0 (counted_stub_world [401, 200]))
     = Inr \<lparr>status = 200, response_headers = [], response_content = []\<rparr>
   \<and> outside (snd (request (counting (stub_ops 0 0 0))
          \<lparr>refresh_status_codes = [401], max_refresh_attempts = 1\<rparr>
          get_call None None 0 (counted_stub_world [401, 200])))
     = \<lparr>inner = \<lparr>stub_token = ''token1'', stub_replies = []\<rparr>,
        calls_made = 2, refreshes_made = 1\<rparr>
   \<and> trace (snd (request (counting (stub_ops 0 0 0))
          \<lparr>refresh_status_codes = [401], max_refresh_attempts = 1\<rparr>
          get_call None None 0 (counted_stub_world [401, 200])))
     = [BeforeRequest [], Sent [(''authorization'', ''token'')], ForcedRefresh,
        BeforeRequest [], Sent [(''authorization'', ''token1'')]]"
proof -
  let ?ops = "stub_ops 0 0 0"
  let ?self = "\<lparr>refresh_status_codes = [401], max_refresh_attempts = 1\<rparr>"
  let ?v = "counted_stub_world [401, 200]"
  let ?v1 = "snd (send_with_credentials (counting ?ops) get_call None None ?v)"
  let ?v2 = "snd (forced_refresh (counting ?ops) get_call None ?v1)"
  let ?v3 = "snd (send_with_credentials (counting ?ops) get_call None None ?v2)"
  let ?r401 = "\<lparr>status = 401, response_headers = [], response_content = []\<rparr>"
  let ?r200 = "\<lparr>status = 200, response_headers = [], response_content = []\<rparr>"
  have s1: "send_with_credentials (counting ?ops) get_call None None ?v
              = (Inr (?r401, None), ?v1)"
    by (simp add: stub_defs)
  have fr: "forced_refresh (counting ?ops) get_call None ?v1 = (Inr None, ?v2)"
    by (simp add: stub_defs)
  have s2: "send_with_credentials (counting ?ops) get_call None None ?v2
              = (Inr (?r200, None), ?v3)"
    by (simp add: stub_defs)
  have pre: "send_with_credentials (counting ?ops) get_call None None ?v
               = (Inr (?r401, None), ?v1)
        \<and> status ?r401 \<in> set (refresh_status_codes ?self)
        \<and> 0 < max_refresh_attempts ?self
        \<and> forced_refresh (counting ?ops) get_call None ?v1 = (Inr None, ?v2)
        \<and> send_with_credentials (counting ?ops) get_call None None ?v2
             = (Inr (?r200, None), ?v3)
        \<and> status ?r200 \<notin> set (refresh_status_codes ?self)"
    by (intro conjI; (rule s1 | rule fr | rule s2 | simp))
  note scenario = request_refresh_and_retry
    [where ops = ?ops and self = ?self and attempt = 0 and c = get_call and hdrs = None
       and budget = None and v = ?v and ?response1.0 = ?r401 and ?remaining1.0 = None
       and ?v1.0 = ?v1 and ?remaining2.0 = None and ?v2.0 = ?v2 and ?response2.0 = ?r200
       and ?remaining3.0 = None and ?v3.0 = ?v3,
     THEN conjunct2, THEN conjunct2, rule_format, OF pre]
  have run: "request (counting ?ops) ?self get_call None None 0 ?v = (Inr ?r200, ?v3)"
    using scenario by blast
  have out: "outside ?v3 = \<lparr>inner = \<lparr>stub_token = ''token1'', stub_replies = []\<rparr>,
                             calls_made = 2, refreshes_made = 1\<rparr>"
    by (simp add: stub_defs)
  have tr: "trace ?v3 = [BeforeRequest [], Sent [(''authorization'', ''token'')], ForcedRefresh,
                         BeforeRequest [], Sent [(''authorization'', ''token1'')]]"
    by (simp add: stub_defs)
  show ?thesis
    by (simp only: run fst_conv snd_conv out tr)
qed

subsection \<open>The time budget\<close>

text \<open>
  C2. The budget handed to the guard of the underlying request is to reflect the time
  spent in \<open>before_request\<close>, and the budget passed to the retry all guarded
  operations before it. Line 272 builds the second guard from
  \<open>remaining_time\<close>, which line 265 set to \<open>max_allowed_time\<close> and nothing has updated:
  the first guard's \<open>remaining_timeout\<close> is never read. With a budget of 10, a
  \<open>before_request\<close> taking 6 and an underlying request taking 6, the second guard
  leaves 4 and the call returns the response, 12 time units after it began. With a
  budget of 10 and collaborators taking 4, 3 and 0, a call answered 401 and then 200
  returns the second response after 14 time units.
\<close>

theorem request_budget_skips_before_request:
  "fst (send_with_credentials (stub_ops 6 6 0) get_call None (Some 10) (stub_world [200]))
     = Inr (\<lparr>status = 200, response_headers = [], response_content = []\<rparr>, Some 4)
   \<and> fst (request (stub_ops 6 6 0) \<lparr>refresh_status_codes = [401], max_refresh_attempts = 2\<rparr>
            get_call None (Some 10) 0 (stub_world [200]))
     = Inr \<lparr>status = 200, response_headers = [], response_content = []\<rparr>
   \<and> fst (request (stub_ops 4 3 0) \<lparr>refresh_status_codes = [401], max_refresh_attempts = 2\<rparr>
            get_call None (Some 10) 0 (stub_world [401, 200]))
     = Inr \<lparr>status = 200, response_headers = [], response_content = []\<rparr>"
proof -
  let ?self = "\<lparr>refresh_status_codes = [401], max_refresh_attempts = 2\<rparr>"
  let ?r200 = "\<lparr>status = 200, response_headers = [], response_content = []\<rparr>"
  let ?r401 = "\<lparr>status = 401, response_headers = [], response_content = []\<rparr>"
  let ?v1 = "snd (send_with_credentials (stub_ops 6 6 0) get_call None (Some 10) (stub_world [200]))"
  have a: "send_with_credentials (stub_ops 6 6 0) get_call None (Some 10) (stub_world [200])
             = (Inr (?r200, Some 4), ?v1)"
    by (simp add: stub_defs)
  have b: "request (stub_ops 6 6 0) ?self get_call None (Some 10) 0 (stub_world [200])
             = (Inr ?r200, ?v1)"
    using request_unfold[OF a, of ?self 0] by simp
  let ?ops = "stub_ops 4 3 0"
  let ?w = "stub_world [401, 200]"
  let ?w1 = "snd (send_with_credentials ?ops get_call None (Some 10) ?w)"
  let ?w2 = "snd (forced_refresh ?ops get_call (Some 7) ?w1)"
  let ?w3 = "snd (send_with_credentials ?ops get_call None (Some 7) ?w2)"
  have s1: "send_with_credentials ?ops get_call None (Some 10) ?w = (Inr (?r401, Some 7), ?w1)"
    by (simp add: stub_defs)
  have fr: "forced_refresh ?ops get_call (Some 7) ?w1 = (Inr (Some 7), ?w2)"
    by (simp add: stub_defs)
  have s2: "send_with_credentials ?ops get_call None (Some 7) ?w2 = (Inr (?r200, Some 4), ?w3)"
    by (simp add: stub_defs)
  have "request ?ops ?self get_call None (Some 7) (0 + 1) ?w2 = (Inr ?r200, ?w3)"
    using request_unfold[OF s2, of ?self "0 + 1"] by simp
  moreover have "request ?ops ?self get_call None (Some 10) 0 ?w
          = (case forced_refresh ?ops get_call (Some 7) ?w1 of
               (Inl e, w2) \<Rightarrow> (Inl e, w2)
             | (Inr remaining', w2) \<Rightarrow> request ?ops ?self get_call None remaining' (0 + 1) w2)"
    using request_unfold[OF s1, of ?self 0] by simp
  ultimately have c: "request ?ops ?self get_call None (Some 10) 0 ?w = (Inr ?r200, ?w3)"
    by (subst (asm) (2) fr) simp
  have a': "fst (send_with_credentials (stub_ops 6 6 0) get_call None (Some 10)
                  (stub_world [200])) = Inr (?r200, Some 4)"
    by (simp add: stub_defs)
  have b': "fst (request (stub_ops 6 6 0) ?self get_call None (Some 10) 0 (stub_world [200]))
              = Inr ?r200"
    by (simp add: b)
  have c': "fst (request ?ops ?self get_call None (Some 10) 0 ?w) = Inr ?r200"
    by (simp add: c)
  from a' b' c' show ?thesis by (intro conjI)
qed

subsection \<open>The caller's headers\<close>

lemma handed_headers_append:
  "handed_headers (xs @ ys) = handed_headers xs @ handed_headers ys"
  by (induction xs rule: handed_headers.induct) auto

lemma send_with_credentials_frame:
  assumes "send_with_credentials ops c hdrs budget w = (res, w1)"
  shows "\<forall>a < next_addr w. heap w1 a = heap w a"
    and "next_addr w1 = Suc (next_addr w)"
    and "handed_headers (trace w1)
           = handed_headers (trace w) @ [case hdrs of None \<Rightarrow> [] | Some h \<Rightarrow> heap w h]"
  using assms
  by (auto simp: send_with_credentials_def Let_def handed_headers_append split: sum.splits)

lemma forced_refresh_frame:
  assumes "forced_refresh ops c remaining w = (res, w1)"
  shows "heap w1 = heap w" and "next_addr w1 = next_addr w"
    and "handed_headers (trace w1) = handed_headers (trace w)"
  using assms
  by (auto simp: forced_refresh_def Let_def handed_headers_append
           split: sum.splits option.splits)

text \<open>
  C9. The caller's headers dict exists before the call, so its address is below the
  next free one. Whatever the call's outcome, every dict that existed before the call
  holds afterwards what it held before (the credentials are applied to a copy at a new
  address), and every \<open>before_request\<close> of the call, the first and each retry's, was
  handed a dict with the caller's original contents (the empty dict when the caller
  passed \<open>None\<close>), never the contents with the credentials already applied.
\<close>

theorem request_keeps_caller_headers:
  assumes "request ops self c hdrs budget attempt w = (res, w')"
    and "case hdrs of None \<Rightarrow> True | Some h \<Rightarrow> h < next_addr w"
  shows "(\<forall>a < next_addr w. heap w' a = heap w a)
       \<and> next_addr w \<le> next_addr w'
       \<and> (\<exists>n. handed_headers (trace w') = handed_headers (trace w)
              @ replicate (Suc n) (case hdrs of None \<Rightarrow> [] | Some h \<Rightarrow> heap w h))"
  using assms
proof (induction ops self c hdrs budget attempt w rule: request.induct)
  case (1 ops self c hdrs budget attempt w)
  let ?orig = "\<lambda>w. case hdrs of None \<Rightarrow> [] | Some h \<Rightarrow> heap w h"
  obtain res1 w1 where swc: "send_with_credentials ops c hdrs budget w = (res1, w1)"
    by (cases "send_with_credentials ops c hdrs budget w")
  note f1 = send_with_credentials_frame[OF swc]
  have one: "handed_headers (trace w1) = handed_headers (trace w) @ replicate (Suc 0) (?orig w)"
    using f1(3) by simp
  have le1: "next_addr w \<le> next_addr w1" using f1(2) by simp
  show ?case
  proof (cases res1)
    case (Inl e)
    with swc "1.prems"(1) request_failed_first[of ops c hdrs budget w e w1 self attempt]
    have "w' = w1" by simp
    with f1(1) le1 one show ?thesis by blast
  next
    case (Inr p)
    obtain response remaining where p: "p = (response, remaining)" by (cases p)
    have s: "send_with_credentials ops c hdrs budget w = (Inr (response, remaining), w1)"
      using swc Inr p by simp
    show ?thesis
    proof (cases "status response \<in> set (refresh_status_codes self)
                  \<and> attempt < max_refresh_attempts self")
      case False
      with "1.prems"(1) request_unfold[OF s, of self attempt] have "w' = w1" by auto
      with f1(1) le1 one show ?thesis by blast
    next
      case True
      obtain res2 w2 where fr: "forced_refresh ops c remaining w1 = (res2, w2)"
        by (cases "forced_refresh ops c remaining w1")
      note f2 = forced_refresh_frame[OF fr]
      show ?thesis
      proof (cases res2)
        case (Inl e)
        with "1.prems"(1) request_unfold[OF s, of self attempt] True fr
        have "w' = w2" by simp
        with f1(1) le1 f2 one show ?thesis by (metis (no_types, lifting))
      next
        case (Inr remaining')
        have rec: "request ops self c hdrs remaining' (attempt + 1) w2 = (res, w')"
          using "1.prems"(1) request_unfold[OF s, of self attempt] True fr Inr by simp
        have pre: "case hdrs of None \<Rightarrow> True | Some h \<Rightarrow> h < next_addr w2"
          using "1.prems"(2) f1(2) f2(2) by (auto split: option.splits)
        have IH: "(\<forall>a < next_addr w2. heap w' a = heap w2 a) \<and> next_addr w2 \<le> next_addr w'
          \<and> (\<exists>n. handed_headers (trace w') = handed_headers (trace w2)
                 @ replicate (Suc n) (?orig w2))"
          using "1.IH"[OF s[symmetric] refl refl _ fr[symmetric] Inr rec pre] True by simp
        then obtain n where n: "handed_headers (trace w') = handed_headers (trace w2)
                 @ replicate (Suc n) (?orig w2)"
          by blast
        have same: "?orig w2 = ?orig w"
          using "1.prems"(2) f1(1) f2(1) by (auto split: option.splits)
        have "handed_headers (trace w') = handed_headers (trace w)
                @ replicate (Suc (Suc n)) (?orig w)"
          using n same f2(3) one by (simp add: replicate_app_Cons_same)
        moreover have "\<forall>a < next_addr w. heap w' a = heap w a"
          using IH f1 f2 by auto
        moreover have "next_addr w \<le> next_addr w'" using IH f1 f2 by auto
        ultimately show ?thesis by blast
      qed
    qed
  qed
qed

text \<open>
  The stub session, called with the dict at address 0 and answered 401 and then 200:
  the dict still holds its one header, and both \<open>before_request\<close> calls were handed
  exactly that header.
\<close>

theorem request_keeps_caller_headers_witness:
  "0 < next_addr (stub_world [401, 200])
   \<and> heap (snd (request (stub_ops 0 0 0)
          \<lparr>refresh_status_codes = [401], max_refresh_attempts = 1\<rparr>
          get_call (Some 0) None 0 (stub_world [401, 200]))) 0 = [(''other'', ''header-value'')]
   \<and> (\<exists>n. handed_headers (trace (snd (request (stub_ops 0 0 0)
          \<lparr>refresh_status_codes = [401], max_refresh_attempts = 1\<rparr>
          get_call (Some 0) None 0 (stub_world [401, 200]))))
         = replicate (Suc n) [(''other'', ''header-value'')])"
proof -
  let ?run = "request (stub_ops 0 0 0)
          \<lparr>refresh_status_codes = [401], max_refresh_attempts = 1\<rparr>
          get_call (Some 0) None 0 (stub_world [401, 200])"
  have run: "?run = (fst ?run, snd ?run)" by simp
  have pre: "case Some 0 of None \<Rightarrow> True | Some h \<Rightarrow> h < next_addr (stub_world [401, 200])"
    by (simp add: stub_world_def)
  from request_keeps_caller_headers[OF run pre]
  show ?thesis by (simp add: stub_world_def)
qed

subsection \<open>The \<open>Request\<close> adapter's session\<close>

text \<open>
  C10. Whatever session is passed to the constructor, the stored session is \<open>None\<close>.
  The first call therefore creates a session, sends through that new session and
  stores it; a session the caller supplied, which was created earlier, is not the one
  used.
\<close>

theorem Request_init_discards_session:
  "session (Request_init s) = None
   \<and> Request_call client (Request_init s) c hdrs created =
       ((case client created c hdrs of
           Responded response \<Rightarrow> Inr response
         | RaisedClientError m \<Rightarrow> Inl (TransportError m)
         | RaisedTimeoutError m \<Rightarrow> Inl (TransportError m)),
        \<lparr>session = Some created\<rparr>, Suc created)
   \<and> (\<forall>k. s = Some k \<and> k < created \<longrightarrow>
         session (fst (snd (Request_call client (Request_init s) c hdrs created))) \<noteq> Some k)"
  by (auto simp: Request_init_def Request_call_def Let_def split: aio_result.splits)

text \<open>A caller passes session 0, the only one created so far: the call sends through session 1.\<close>

theorem Request_init_discards_session_witness:
  "(0::nat) < 1
   \<and> session (Request_init (Some 0)) = None
   \<and> Request_call
        (\<lambda>k a h. Responded \<lparr>status = int k, response_headers = [], response_content = []\<rparr>)
        (Request_init (Some 0)) get_call None 1
       = (Inr \<lparr>status = 1, response_headers = [], response_content = []\<rparr>,
          \<lparr>session = Some 1\<rparr>, 2)
   \<and> session (fst (snd (Request_call
        (\<lambda>k a h. Responded \<lparr>status = int k, response_headers = [], response_content = []\<rparr>)
        (Request_init (Some 0)) get_call None 1))) \<noteq> Some 0"
  using Request_init_discards_session
          [of "Some 0"
              "\<lambda>k a h. Responded \<lparr>status = int k, response_headers = [], response_content = []\<rparr>"
              get_call None 1]
  by simp

section \<open>Properties of the external account credentials\<close>

lemmas calendar_defs = parse_rfc3339_def digit_def days_in_month_def days_before_month_def
  days_before_year_def is_leap_def

subsection \<open>A failed refresh\<close>






subsection \<open>Refresh with impersonation\<close>

text \<open>
  C4. With an impersonation url set, a refresh that succeeds went through the token
  exchange and then the impersonation hop; the credential's token is the
  \<open>accessToken\<close> of the impersonation answer (the STS token only authorized that hop),
  and its expiry is the parse of the answer's \<open>expireTime\<close> as an RFC3339 absolute UTC
  timestamp. The time of the refresh plays no part: at any other time the refresh ends
  in the same credential.
\<close>

theorem refresh_impersonation_overrides:
  assumes "impersonation_url c = Some u"
    and "refresh sv now c = (None, c')"
  shows "\<exists>subject sts_token expires_in r token expire_time.
           subject_token_source sv = Inr subject
         \<and> exchange_token sv c subject = Inr (sts_token, expires_in)
         \<and> send_http sv (impersonation_request c u sts_token) = Inr r
         \<and> reply_status r = 200
         \<and> str_field (reply_body r) ''accessToken'' = Some token
         \<and> str_field (reply_body r) ''expireTime'' = Some expire_time
         \<and> access_token c' = Some token
         \<and> expiry c' = parse_rfc3339 expire_time
         \<and> expiry c' \<noteq> None
         \<and> (\<forall>now'. refresh sv now' c = (None, c'))"
proof -
  from assms obtain subject where subject: "subject_token_source sv = Inr subject"
    by (auto simp: refresh_def split: sum.splits)
  from assms subject obtain sts_token expires_in
    where ex: "exchange_token sv c subject = Inr (sts_token, expires_in)"
    by (auto simp: refresh_def split: sum.splits)
  from assms subject ex obtain token e
    where imp: "impersonate sv c u sts_token = Inr (token, e)"
      and c': "c' = c\<lparr>access_token := Some token, expiry := Some e\<rparr>"
    by (auto simp: refresh_def split: sum.splits)
  from imp obtain r where r: "send_http sv (impersonation_request c u sts_token) = Inr r"
    by (auto simp: impersonate_def split: sum.splits)
  from imp r have st: "reply_status r = 200"
    by (auto simp: impersonate_def split: if_splits)
  from imp r st obtain expire_time
    where tok: "str_field (reply_body r) ''accessToken'' = Some token"
      and ts: "str_field (reply_body r) ''expireTime'' = Some expire_time"
      and parsed: "parse_rfc3339 expire_time = Some e"
    by (auto simp: impersonate_def split: option.splits)
  have any: "\<forall>now'. refresh sv now' c = (None, c')"
    using assms(1) subject ex imp c' by (simp add: refresh_def)
  from subject ex r st tok ts parsed c' any show ?thesis by auto
qed

text \<open>
  \<open>test_before_request_impersonation_expired\<close>: the impersonation answer expires at
  \<open>datetime.min\<close> plus 3601 seconds, while the exchange answers \<open>expires_in = 3600\<close>;
  refreshed at time 1000 the credential holds the service account token and the
  expiry 3601, not 4600.
\<close>

theorem refresh_impersonation_overrides_witness:
  "impersonation_url (test_credential (Some ''https://iamcredentials/sa:generateAccessToken''))
     = Some ''https://iamcredentials/sa:generateAccessToken''
   \<and> refresh (mock_services (success_reply 3600) (impersonation_reply ''0001-01-01T01:00:01Z''))
        1000 (test_credential (Some ''https://iamcredentials/sa:generateAccessToken''))
     = (None, (test_credential (Some ''https://iamcredentials/sa:generateAccessToken''))
                \<lparr>access_token := Some ''SA_ACCESS_TOKEN'', expiry := Some 3601\<rparr>)
   \<and> (\<exists>expire_time.
         expiry ((test_credential (Some ''https://iamcredentials/sa:generateAccessToken''))
                   \<lparr>access_token := Some ''SA_ACCESS_TOKEN'', expiry := Some 3601\<rparr>)
           = parse_rfc3339 expire_time)
   \<and> refresh (mock_services (success_reply 3600) (impersonation_reply ''0001-01-01T01:00:01Z''))
        0 (test_credential (Some ''https://iamcredentials/sa:generateAccessToken''))
     = (None, (test_credential (Some ''https://iamcredentials/sa:generateAccessToken''))
                \<lparr>access_token := Some ''SA_ACCESS_TOKEN'', expiry := Some 3601\<rparr>)"
proof -
  let ?u = "''https://iamcredentials/sa:generateAccessToken''"
  let ?sv = "mock_services (success_reply 3600) (impersonation_reply ''0001-01-01T01:00:01Z'')"
  let ?c = "test_credential (Some ?u)"
  let ?c' = "?c\<lparr>access_token := Some ''SA_ACCESS_TOKEN'', expiry := Some 3601\<rparr>"
  have u: "impersonation_url ?c = Some ?u" by (simp add: test_credential_def)
  have p: "parse_rfc3339 ''0001-01-01T01:00:01Z'' = Some 3601"
    by (simp add: calendar_defs)
  have run: "refresh ?sv 1000 ?c = (None, ?c')"
    by (simp add: refresh_def exchange_token_def exchange_request_def impersonate_def
                  impersonation_request_def mock_services_def success_reply_def
                  impersonation_reply_def test_credential_def p)
  from refresh_impersonation_overrides[OF u run]
  have "(\<exists>expire_time. expiry ?c' = parse_rfc3339 expire_time)
        \<and> refresh ?sv 0 ?c = (None, ?c')"
    by blast
  with u run show ?thesis by blast
qed

subsection \<open>Expiry and validity\<close>

text \<open>
  C8. Without an impersonation url, a refresh at time \<open>t0\<close> whose exchange answers
  \<open>expires_in = n\<close> stores the expiry \<open>t0 + n\<close>. The credential is valid if and only if
  it holds a token and is not expired, and it is expired if and only if an expiry is
  set and now plus the clock skew tolerance has reached it. So a credential that holds
  a token and an expiry is valid strictly before the expiry minus the clock skew, and
  not valid from that instant on.
\<close>

theorem refresh_expiry_and_valid:
  "(impersonation_url c = None \<and> subject_token_source sv = Inr subject
      \<and> exchange_token sv c subject = Inr (token, n) \<longrightarrow>
      refresh sv t0 c = (None, c\<lparr>access_token := Some token, expiry := Some (t0 + n)\<rparr>))
   \<and> (valid clock_skew now c \<longleftrightarrow> access_token c \<noteq> None \<and> \<not> expired clock_skew now c)
   \<and> (expired clock_skew now c \<longleftrightarrow> (\<exists>e. expiry c = Some e \<and> now + clock_skew \<ge> e))
   \<and> (access_token c \<noteq> None \<and> expiry c = Some e \<longrightarrow>
        (now < e - clock_skew \<longrightarrow> valid clock_skew now c)
        \<and> (e - clock_skew \<le> now \<longrightarrow> \<not> valid clock_skew now c))"
  by (auto simp: refresh_def valid_def expired_def split: option.splits)

text \<open>
  \<open>test_refresh_without_client_auth_success\<close> and \<open>test_before_request_expired\<close>:
  refreshed at \<open>datetime.min\<close> with \<open>expires_in = 2800\<close> the expiry is 2800; with a
  clock skew of 300 and an expiry one second past it, the credential is valid at time
  0 and expired at time 1.
\<close>

theorem refresh_expiry_and_valid_witness:
  "refresh (mock_services (success_reply 2800) error_reply) 0 (test_credential None)
     = (None, (test_credential None)\<lparr>access_token := Some ''ACCESS_TOKEN'',
                                      expiry := Some 2800\<rparr>)
   \<and> valid 300 0 ((test_credential None)\<lparr>access_token := Some ''token'', expiry := Some 301\<rparr>)
   \<and> \<not> valid 300 1 ((test_credential None)\<lparr>access_token := Some ''token'', expiry := Some 301\<rparr>)
   \<and> expired 300 1 ((test_credential None)\<lparr>access_token := Some ''token'', expiry := Some 301\<rparr>)"
proof -
  let ?sv = "mock_services (success_reply 2800) error_reply"
  let ?c = "test_credential None"
  let ?d = "?c\<lparr>access_token := Some ''token'', expiry := Some 301\<rparr>"
  have ex: "exchange_token ?sv ?c ''subject_token_0'' = Inr (''ACCESS_TOKEN'', 2800)"
    by (simp add: exchange_token_def exchange_request_def mock_services_def success_reply_def
                  test_credential_def)
  have pre: "impersonation_url ?c = None \<and> subject_token_source ?sv = Inr ''subject_token_0''
             \<and> exchange_token ?sv ?c ''subject_token_0'' = Inr (''ACCESS_TOKEN'', 2800)"
    using ex by (simp add: mock_services_def test_credential_def)
  have tok: "access_token ?d \<noteq> None \<and> expiry ?d = Some 301" by simp
  note t = refresh_expiry_and_valid
             [of ?c ?sv "''subject_token_0''" "''ACCESS_TOKEN''" 2800 0 300 0 301]
  note t1 = refresh_expiry_and_valid
             [of ?d ?sv "''subject_token_0''" "''ACCESS_TOKEN''" 2800 0 300 1 301]
  note t0 = refresh_expiry_and_valid
             [of ?d ?sv "''subject_token_0''" "''ACCESS_TOKEN''" 2800 0 300 0 301]
  have a: "refresh ?sv 0 ?c = (None, ?c\<lparr>access_token := Some ''ACCESS_TOKEN'',
                                         expiry := Some 2800\<rparr>)"
    using t pre by simp
  have b: "valid 300 0 ?d" using t0 tok by simp
  have c: "\<not> valid 300 1 ?d" using t1 tok by simp
  have d: "expired 300 1 ?d" using t1 tok by simp
  from a b c d show ?thesis by (intro conjI)
qed

end
